theory Spec2Isabelle
  imports Complex_Main
begin

section \<open>Tensors\<close>

text \<open>
  The functions of \<^verbatim>\<open>probabilistic/prob_utils.py\<close> compute on PyTorch tensors. A tensor is
  modelled by its shape and its elements in row-major order; a tensor is well formed when
  the number of elements is the product of the shape. Elements are exact reals: the
  rounding of floating point and the special values \<^verbatim>\<open>inf\<close> and \<^verbatim>\<open>nan\<close> are outside the model.
  Whatever the source raises is a value of type \<open>error\<close>, and a computation that may raise
  returns \<open>error + 'a\<close>.
\<close>

datatype error =
  RuntimeError | AssertionError | IndexError | ZeroDivisionError | ValueError | TypeError

datatype tensor = Tensor (shape: "nat list") (data: "real list")

definition wf_tensor :: "tensor \<Rightarrow> bool" where
  "wf_tensor t \<longleftrightarrow> length (data t) = prod_list (shape t)"

definition numel :: "tensor \<Rightarrow> nat" where
  "numel t = length (data t)"

text \<open>A 0-dimensional tensor, as \<^verbatim>\<open>torch.sum\<close> and \<^verbatim>\<open>torch.norm\<close> return it.\<close>

definition scalar_tensor :: "real \<Rightarrow> tensor" where
  "scalar_tensor x = Tensor [] [x]"

subsection \<open>Errors\<close>

definition lift1 :: "('a \<Rightarrow> 'b) \<Rightarrow> error + 'a \<Rightarrow> error + 'b" where
  "lift1 f r = (case r of Inl e \<Rightarrow> Inl e | Inr a \<Rightarrow> Inr (f a))"

text \<open>Both operands are evaluated, the left one first, before the operation runs.\<close>

definition lift2 :: "('a \<Rightarrow> 'b \<Rightarrow> error + 'c) \<Rightarrow> error + 'a \<Rightarrow> error + 'b \<Rightarrow> error + 'c" where
  "lift2 f ra rb =
     (case ra of Inl e \<Rightarrow> Inl e
      | Inr a \<Rightarrow> (case rb of Inl e \<Rightarrow> Inl e | Inr b \<Rightarrow> f a b))"

subsection \<open>Broadcasting\<close>

text \<open>
  PyTorch aligns two shapes at their last dimension; two sizes are compatible when they
  are equal or one of them is 1, and a missing dimension counts as 1.
  \<open>broadcast_rev\<close> works on the reversed shapes.
\<close>

fun broadcast_rev :: "nat list \<Rightarrow> nat list \<Rightarrow> nat list option" where
  "broadcast_rev [] ys = Some ys"
| "broadcast_rev (x # xs) [] = Some (x # xs)"
| "broadcast_rev (x # xs) (y # ys) =
     (if x = y \<or> y = 1 then map_option ((#) x) (broadcast_rev xs ys)
      else if x = 1 then map_option ((#) y) (broadcast_rev xs ys)
      else None)"

definition broadcast_shapes :: "nat list \<Rightarrow> nat list \<Rightarrow> nat list option" where
  "broadcast_shapes s1 s2 = map_option rev (broadcast_rev (rev s1) (rev s2))"

text \<open>
  \<open>expand_to target s d\<close> are the elements of a tensor of shape \<open>s\<close> and elements \<open>d\<close>
  expanded to the shape \<open>target\<close>, to which \<open>s\<close> broadcasts: a missing leading dimension
  and a dimension of size 1 repeat the block below them.
\<close>

fun expand_to :: "nat list \<Rightarrow> nat list \<Rightarrow> real list \<Rightarrow> real list" where
  "expand_to [] s d = d"
| "expand_to (t # ts) s d =
     (if length s \<le> length ts then concat (replicate t (expand_to ts s d))
      else if hd s = t then
        concat (map (\<lambda>k. expand_to ts (tl s)
                       (take (prod_list (tl s)) (drop (k * prod_list (tl s)) d))) [0..<t])
      else concat (replicate t (expand_to ts (tl s) d)))"

text \<open>An elementwise binary operation of two tensors, \<^verbatim>\<open>a + b\<close>, \<^verbatim>\<open>a * b\<close> and so on.\<close>

definition tensor_binop :: "(real \<Rightarrow> real \<Rightarrow> real) \<Rightarrow> tensor \<Rightarrow> tensor \<Rightarrow> error + tensor" where
  "tensor_binop f a b =
     (if shape a = shape b then Inr (Tensor (shape a) (map2 f (data a) (data b)))
      else (case broadcast_shapes (shape a) (shape b) of
              None \<Rightarrow> Inl RuntimeError
            | Some s \<Rightarrow> Inr (Tensor s (map2 f (expand_to s (shape a) (data a))
                                              (expand_to s (shape b) (data b))))))"

text \<open>An elementwise operation of one tensor, or of a tensor and a Python number.\<close>

definition tensor_map :: "(real \<Rightarrow> real) \<Rightarrow> tensor \<Rightarrow> tensor" where
  "tensor_map f a = Tensor (shape a) (map f (data a))"

subsection \<open>The operations of the source, on results\<close>

definition t_add :: "error + tensor \<Rightarrow> error + tensor \<Rightarrow> error + tensor" where
  "t_add = lift2 (tensor_binop (+))"

definition t_sub :: "error + tensor \<Rightarrow> error + tensor \<Rightarrow> error + tensor" where
  "t_sub = lift2 (tensor_binop (-))"

definition t_mul :: "error + tensor \<Rightarrow> error + tensor \<Rightarrow> error + tensor" where
  "t_mul = lift2 (tensor_binop (*))"

definition t_div :: "error + tensor \<Rightarrow> error + tensor \<Rightarrow> error + tensor" where
  "t_div = lift2 (tensor_binop (/))"

definition t_map :: "(real \<Rightarrow> real) \<Rightarrow> error + tensor \<Rightarrow> error + tensor" where
  "t_map f = lift1 (tensor_map f)"

text \<open>\<^verbatim>\<open>torch.sum(t)\<close> and \<^verbatim>\<open>t.sum()\<close>: the sum of all elements, a 0-dimensional tensor.\<close>

definition t_sum :: "error + tensor \<Rightarrow> error + tensor" where
  "t_sum = lift1 (\<lambda>a. scalar_tensor (sum_list (data a)))"

text \<open>\<^verbatim>\<open>torch.norm(t, p=2)\<close>: the Euclidean norm of all elements.\<close>

definition t_norm2 :: "error + tensor \<Rightarrow> error + tensor" where
  "t_norm2 = lift1 (\<lambda>a. scalar_tensor (sqrt (sum_list (map (\<lambda>x. x\<^sup>2) (data a)))))"

text \<open>
  \<^verbatim>\<open>torch.cat([t.view(-1) for t in ts])\<close>: every tensor is flattened to one dimension and
  the pieces are joined. \<^verbatim>\<open>torch.cat\<close> rejects an empty sequence of tensors with a
  \<^verbatim>\<open>RuntimeError\<close> (``expected a non-empty list of Tensors'').
\<close>

definition cat_view :: "tensor list \<Rightarrow> error + tensor" where
  "cat_view ts =
     (if ts = [] then Inl RuntimeError
      else Inr (Tensor [length (concat (map data ts))] (concat (map data ts))))"

section \<open>Analytic divergences between diagonal Gaussians\<close>

text \<open>
  \<^verbatim>\<open>
  def kl_diag_gaussians(mean_a, logvar_a, mean_b, logvar_b):
      mean_a_flat = torch.cat([t.view(-1) for t in mean_a])
      logvar_a_flat = torch.cat([t.view(-1) for t in logvar_a])
      mean_b_flat = torch.cat([t.view(-1) for t in mean_b])
      logvar_b_flat = torch.cat([t.view(-1) for t in logvar_b])
      kl = 0.5 * torch.sum(-1 + \
          (logvar_a_flat.exp() + (mean_b_flat - mean_a_flat).pow(2)) / \
          logvar_b_flat.exp() + logvar_b_flat - logvar_a_flat)
      return kl
  \<close>
\<close>

definition kl_diag_gaussians ::
  "tensor list \<Rightarrow> tensor list \<Rightarrow> tensor list \<Rightarrow> tensor list \<Rightarrow> error + tensor" where
  "kl_diag_gaussians mean_a logvar_a mean_b logvar_b =
     (let mean_a_flat = cat_view mean_a;
          logvar_a_flat = cat_view logvar_a;
          mean_b_flat = cat_view mean_b;
          logvar_b_flat = cat_view logvar_b
      in t_map (\<lambda>x. 0.5 * x)
           (t_sum
             (t_sub
               (t_add
                 (t_map (\<lambda>x. - 1 + x)
                   (t_div
                     (t_add (t_map exp logvar_a_flat)
                            (t_map (\<lambda>x. x\<^sup>2) (t_sub mean_b_flat mean_a_flat)))
                     (t_map exp logvar_b_flat)))
                 logvar_b_flat)
               logvar_a_flat)))"

text \<open>
  \<^verbatim>\<open>
  def square_wasserstein_2(mean_a, logvar_a, mean_b, logvar_b):
      mean_a_flat = torch.cat([t.view(-1) for t in mean_a])
      var_a_flat = torch.cat([t.view(-1) for t in logvar_a]).exp()
      mean_b_flat = torch.cat([t.view(-1) for t in mean_b])
      var_b_flat = torch.cat([t.view(-1) for t in logvar_b]).exp()
      square_wasserstein = torch.norm((mean_a_flat - mean_b_flat), p=2) ** 2 + \
          (var_a_flat + var_b_flat - 2 * torch.sqrt(var_a_flat * var_b_flat)).sum()
      return square_wasserstein
  \<close>
\<close>

definition square_wasserstein_2 ::
  "tensor list \<Rightarrow> tensor list \<Rightarrow> tensor list \<Rightarrow> tensor list \<Rightarrow> error + tensor" where
  "square_wasserstein_2 mean_a logvar_a mean_b logvar_b =
     (let mean_a_flat = cat_view mean_a;
          var_a_flat = t_map exp (cat_view logvar_a);
          mean_b_flat = cat_view mean_b;
          var_b_flat = t_map exp (cat_view logvar_b)
      in t_add
           (t_map (\<lambda>x. x\<^sup>2) (t_norm2 (t_sub mean_a_flat mean_b_flat)))
           (t_sum
             (t_sub (t_add var_a_flat var_b_flat)
                    (t_map (\<lambda>x. 2 * x) (t_map sqrt (t_mul var_a_flat var_b_flat))))))"

text \<open>
  \<^verbatim>\<open>
  def compute_kl(mean, exp_var, prior_mean, prior_exp_var, sum=True, lamb=1,
                 initial_prior_var=0.0):
      trace_term = torch.exp(exp_var - prior_exp_var)
      if lamb != 1:
          mean_term = (mean - prior_mean) ** 2 * (
              lamb * torch.clamp(torch.exp(-prior_exp_var)
                                 - (1.0 / np.exp(1.0 * initial_prior_var)), min=0.0)
              + (1.0 / np.exp(1.0 * initial_prior_var)))
      else:
          mean_term = (mean - prior_mean) ** 2 * torch.exp(-prior_exp_var)
      det_term = prior_exp_var - exp_var
      if sum:
          return 0.5 * torch.sum(trace_term + mean_term + det_term - 1)
      else:
          return 0.5 * (trace_term + mean_term + det_term - 1)
  \<close>
\<close>

definition compute_kl ::
  "tensor \<Rightarrow> tensor \<Rightarrow> tensor \<Rightarrow> tensor \<Rightarrow> bool \<Rightarrow> real \<Rightarrow> real \<Rightarrow> error + tensor" where
  "compute_kl mean exp_var prior_mean prior_exp_var sum_arg lamb initial_prior_var =
     (let trace_term = t_map exp (t_sub (Inr exp_var) (Inr prior_exp_var));
          mean_term =
            (if lamb \<noteq> 1 then
               t_mul (t_map (\<lambda>x. x\<^sup>2) (t_sub (Inr mean) (Inr prior_mean)))
                 (t_map (\<lambda>x. x + 1.0 / exp (1.0 * initial_prior_var))
                   (t_map (\<lambda>x. lamb * x)
                     (t_map (\<lambda>x. max x 0.0)
                       (t_map (\<lambda>x. x - 1.0 / exp (1.0 * initial_prior_var))
                         (t_map exp (t_map uminus (Inr prior_exp_var)))))))
             else
               t_mul (t_map (\<lambda>x. x\<^sup>2) (t_sub (Inr mean) (Inr prior_mean)))
                     (t_map exp (t_map uminus (Inr prior_exp_var))));
          det_term = t_sub (Inr prior_exp_var) (Inr exp_var)
      in if sum_arg then
           t_map (\<lambda>x. 0.5 * x)
             (t_sum (t_map (\<lambda>x. x - 1) (t_add (t_add trace_term mean_term) det_term)))
         else
           t_map (\<lambda>x. 0.5 * x)
             (t_map (\<lambda>x. x - 1) (t_add (t_add trace_term mean_term) det_term)))"

text \<open>
  \<^verbatim>\<open>
  def kl_gauss(mean_a, logvar_a, mean_b, logvar_b):
      kl = 0.
      kl = 0.5 * (logvar_b - logvar_a) + 0.5 * (torch.exp(logvar_a) +
                  (mean_a - mean_b) ** 2) / torch.exp(logvar_b) - 0.5
      return kl
  \<close>
\<close>

definition kl_gauss :: "tensor \<Rightarrow> tensor \<Rightarrow> tensor \<Rightarrow> tensor \<Rightarrow> error + tensor" where
  "kl_gauss mean_a logvar_a mean_b logvar_b =
     t_map (\<lambda>x. x - 0.5)
       (t_add
         (t_map (\<lambda>x. 0.5 * x) (t_sub (Inr logvar_b) (Inr logvar_a)))
         (t_div
           (t_map (\<lambda>x. 0.5 * x)
             (t_add (t_map exp (Inr logvar_a))
                    (t_map (\<lambda>x. x\<^sup>2) (t_sub (Inr mean_a) (Inr mean_b)))))
           (t_map exp (Inr logvar_b))))"

section \<open>Random numbers\<close>

text \<open>
  A \<^verbatim>\<open>torch.Generator\<close> (the one passed as \<^verbatim>\<open>generator\<close>, or the global default when it is
  \<^verbatim>\<open>None\<close>) is modelled by the sequence of standard draws it is going to produce (the tape)
  and the number of draws already consumed. A sampling function takes the generator and
  returns it advanced, next to its result.
\<close>

record generator =
  tape :: "nat \<Rightarrow> real"
  pos :: nat

definition draws :: "generator \<Rightarrow> nat \<Rightarrow> real list" where
  "draws g k = map (tape g) [pos g..<pos g + k]"

definition advance :: "generator \<Rightarrow> nat \<Rightarrow> generator" where
  "advance g k = g\<lparr>pos := pos g + k\<rparr>"

text \<open>
  \<^verbatim>\<open>torch.normal(mean, std, generator=generator)\<close> with a tensor of means and a number as
  standard deviation: element \<open>j\<close> is \<open>mean j + std * z j\<close> for the next draws \<open>z\<close>.
\<close>

definition normal :: "tensor \<Rightarrow> real \<Rightarrow> generator \<Rightarrow> tensor \<times> generator" where
  "normal mean std g =
     (Tensor (shape mean) (map2 (\<lambda>mu z. mu + std * z) (data mean) (draws g (numel mean))),
      advance g (numel mean))"

definition zeros_like :: "tensor \<Rightarrow> tensor" where
  "zeros_like t = Tensor (shape t) (replicate (numel t) 0)"

text \<open>\<^verbatim>\<open>xs[i]\<close> on a Python list, for an index that is not negative: out of range raises.\<close>

definition py_index :: "'a list \<Rightarrow> nat \<Rightarrow> error + 'a" where
  "py_index xs i = (if i < length xs then Inr (xs ! i) else Inl IndexError)"

section \<open>Sampling from diagonal Gaussian and radial posteriors\<close>

text \<open>
  \<^verbatim>\<open>F.softplus(x)\<close> with its defaults \<^verbatim>\<open>beta=1\<close>, \<^verbatim>\<open>threshold=20\<close>: above the threshold
  PyTorch returns the input itself.
\<close>

definition softplus :: "real \<Rightarrow> real" where
  "softplus x = (if x > 20 then x else ln (1 + exp x))"

text \<open>
  The decoding of one tensor of \<^verbatim>\<open>rho\<close>, as \<^verbatim>\<open>decode_and_sample_diag_gauss\<close>,
  \<^verbatim>\<open>decode_diag_gauss\<close> and \<^verbatim>\<open>sample_gumbel\<close> all write it:
  \<^verbatim>\<open>
      if logvar_enc:
          std = torch.exp(0.5 * rho[i])
          logvar = rho[i]
      else:
          std = F.softplus(rho[i])
          logvar = 2 * torch.log(std)
  \<close>
\<close>

definition decode_std :: "bool \<Rightarrow> tensor \<Rightarrow> tensor" where
  "decode_std logvar_enc rho_i =
     (if logvar_enc then tensor_map (\<lambda>x. exp (0.5 * x)) rho_i else tensor_map softplus rho_i)"

definition decode_logvar :: "bool \<Rightarrow> tensor \<Rightarrow> tensor" where
  "decode_logvar logvar_enc rho_i =
     (if logvar_enc then rho_i
      else tensor_map (\<lambda>x. 2 * ln x) (tensor_map softplus rho_i))"

text \<open>
  \<^verbatim>\<open>
  def decode_diag_gauss(rho, logvar_enc=False, return_var=False, return_logvar=False):
      ret_std = []; ret_var = []; ret_logvar = []
      for i in range(len(rho)):
          (std, logvar decoded as above)
          ret_std.append(std)
          ret_logvar.append(logvar)
          if return_var:
              ret_var.append(std ** 2)
      if return_var and return_logvar:
          return ret_std, ret_var, ret_logvar
      elif return_var:
          return ret_std, ret_var
      elif return_logvar:
          return ret_std, ret_logvar
      return ret_std
  \<close>
  The optional components of the returned tuple are options here.
\<close>

definition decode_diag_gauss ::
  "tensor list \<Rightarrow> bool \<Rightarrow> bool \<Rightarrow> bool
     \<Rightarrow> tensor list \<times> tensor list option \<times> tensor list option" where
  "decode_diag_gauss rho logvar_enc return_var return_logvar =
     (let ret_std = map (decode_std logvar_enc) rho;
          ret_logvar = map (decode_logvar logvar_enc) rho;
          ret_var = (if return_var then map (tensor_map (\<lambda>x. x\<^sup>2)) ret_std else [])
      in (ret_std,
          if return_var then Some ret_var else None,
          if return_logvar then Some ret_logvar else None))"

text \<open>
  \<^verbatim>\<open>
  def sample_diag_gauss(mean, std, generator=None, is_radial=False):
      sample = []
      device = mean[0].device if len(mean) > 0 else None
      for i, m in enumerate(mean):
          eps = torch.normal(torch.zeros_like(m), 1., generator=generator)
          if not is_radial:
              sample.append(m + eps * std[i])
          else:
              r = torch.normal(torch.tensor(0.).to(device), 1., generator=generator)
              sample.append(m + std[i] * r * eps / torch.norm(eps, p=2))
      return sample
  \<close>
\<close>

fun sample_diag_gauss_loop ::
  "(nat \<times> tensor) list \<Rightarrow> tensor list \<Rightarrow> bool \<Rightarrow> tensor list \<Rightarrow> generator
     \<Rightarrow> error + tensor list \<times> generator" where
  "sample_diag_gauss_loop [] std is_radial sample g = Inr (sample, g)"
| "sample_diag_gauss_loop ((i, m) # rest) std is_radial sample g =
     (case normal (zeros_like m) 1 g of
        (eps, g1) \<Rightarrow>
          if \<not> is_radial then
            (case t_add (Inr m) (t_mul (Inr eps) (py_index std i)) of
               Inl e \<Rightarrow> Inl e
             | Inr s \<Rightarrow> sample_diag_gauss_loop rest std is_radial (sample @ [s]) g1)
          else
            (case normal (scalar_tensor 0) 1 g1 of
               (r, g2) \<Rightarrow>
                 (case t_add (Inr m)
                         (t_div (t_mul (t_mul (py_index std i) (Inr r)) (Inr eps))
                                (t_norm2 (Inr eps))) of
                    Inl e \<Rightarrow> Inl e
                  | Inr s \<Rightarrow> sample_diag_gauss_loop rest std is_radial (sample @ [s]) g2)))"

definition sample_diag_gauss ::
  "tensor list \<Rightarrow> tensor list \<Rightarrow> generator \<Rightarrow> bool \<Rightarrow> error + tensor list \<times> generator" where
  "sample_diag_gauss mean std g is_radial =
     sample_diag_gauss_loop (enumerate 0 mean) std is_radial [] g"

text \<open>
  \<^verbatim>\<open>
  def decode_and_sample_diag_gauss(mean, rho, logvar_enc=False, generator=None,
                                   is_radial=False):
      assert (len(mean) == len(rho))
      sample = []
      device = mean[0].device if len(mean) > 0 else None
      for i in range(len(mean)):
          if logvar_enc:
              std = torch.exp(0.5 * rho[i])
          else:
              std = F.softplus(rho[i])
          eps = torch.normal(torch.zeros_like(std), 1., generator=generator)
          if not is_radial:
              sample.append(mean[i] + eps * std)
          else:
              r = torch.normal(torch.tensor(0.).to(device), 1., generator=generator)
              sample.append(mean[i] + std * r * eps / torch.norm(eps, p=2))
      return sample
  \<close>
\<close>

fun decode_and_sample_loop ::
  "nat list \<Rightarrow> tensor list \<Rightarrow> tensor list \<Rightarrow> bool \<Rightarrow> bool \<Rightarrow> tensor list \<Rightarrow> generator
     \<Rightarrow> error + tensor list \<times> generator" where
  "decode_and_sample_loop [] mean rho logvar_enc is_radial sample g = Inr (sample, g)"
| "decode_and_sample_loop (i # rest) mean rho logvar_enc is_radial sample g =
     (case lift1 (decode_std logvar_enc) (py_index rho i) of
        Inl e \<Rightarrow> Inl e
      | Inr std \<Rightarrow>
         (case normal (zeros_like std) 1 g of
            (eps, g1) \<Rightarrow>
              if \<not> is_radial then
                (case t_add (py_index mean i) (t_mul (Inr eps) (Inr std)) of
                   Inl e \<Rightarrow> Inl e
                 | Inr s \<Rightarrow>
                     decode_and_sample_loop rest mean rho logvar_enc is_radial (sample @ [s]) g1)
              else
                (case normal (scalar_tensor 0) 1 g1 of
                   (r, g2) \<Rightarrow>
                     (case t_add (py_index mean i)
                             (t_div (t_mul (t_mul (Inr std) (Inr r)) (Inr eps))
                                    (t_norm2 (Inr eps))) of
                        Inl e \<Rightarrow> Inl e
                      | Inr s \<Rightarrow>
                          decode_and_sample_loop rest mean rho logvar_enc is_radial
                            (sample @ [s]) g2))))"

definition decode_and_sample_diag_gauss ::
  "tensor list \<Rightarrow> tensor list \<Rightarrow> bool \<Rightarrow> generator \<Rightarrow> bool
     \<Rightarrow> error + tensor list \<times> generator" where
  "decode_and_sample_diag_gauss mean rho logvar_enc g is_radial =
     (if length mean \<noteq> length rho then Inl AssertionError
      else decode_and_sample_loop [0..<length mean] mean rho logvar_enc is_radial [] g)"

section \<open>The radial posterior against a diagonal Gaussian\<close>

text \<open>
  \<^verbatim>\<open>torch.distributions.Normal(loc, scale)\<close>: the constructor broadcasts its two arguments
  against each other and, validating its arguments (the default), rejects a scale that is
  not positive with a \<^verbatim>\<open>ValueError\<close>.
\<close>

record normal_dist =
  loc :: tensor
  scale :: tensor

definition broadcast_all :: "tensor \<Rightarrow> tensor \<Rightarrow> error + tensor \<times> tensor" where
  "broadcast_all a b =
     (case broadcast_shapes (shape a) (shape b) of
        None \<Rightarrow> Inl RuntimeError
      | Some s \<Rightarrow> Inr (Tensor s (expand_to s (shape a) (data a)),
                       Tensor s (expand_to s (shape b) (data b))))"

definition Normal :: "tensor \<Rightarrow> tensor \<Rightarrow> error + normal_dist" where
  "Normal loc_arg scale_arg =
     (case broadcast_all loc_arg scale_arg of
        Inl e \<Rightarrow> Inl e
      | Inr (l, s) \<Rightarrow>
          if list_all (\<lambda>x. 0 < x) (data s) then Inr \<lparr>loc = l, scale = s\<rparr>
          else Inl ValueError)"

text \<open>
  \<^verbatim>\<open>
  def log_prob(self, value):
      if self._validate_args:
          self._validate_sample(value)
      var = (self.scale ** 2)
      log_scale = self.scale.log()
      return -((value - self.loc) ** 2) / (2 * var) - log_scale - math.log(math.sqrt(2 * math.pi))
  \<close>
  The validation rejects a value whose shape does not broadcast against the distribution's.
\<close>

definition log_prob :: "normal_dist \<Rightarrow> tensor \<Rightarrow> error + tensor" where
  "log_prob p v =
     (if broadcast_shapes (shape v) (shape (loc p)) = None then Inl ValueError
      else
        (let var = t_map (\<lambda>x. x\<^sup>2) (Inr (scale p));
             log_scale = t_map ln (Inr (scale p))
         in t_map (\<lambda>x. x - ln (sqrt (2 * pi)))
              (t_sub
                (t_div (t_map uminus (t_map (\<lambda>x. x\<^sup>2) (t_sub (Inr v) (Inr (loc p)))))
                       (t_map (\<lambda>x. 2 * x) var))
                log_scale)))"

text \<open>
  The accumulator \<^verbatim>\<open>cross_entropy\<close> starts as the Python number 0 and becomes a tensor with
  the first \<^verbatim>\<open>+=\<close> of a tensor; \<^verbatim>\<open>/=\<close> on a Python number raises on a zero divisor. (The
  accumulator is a tensor only after a first sample, when the divisor is at least 1.)
\<close>

datatype pyval = PyNum real | PyTensor tensor

definition py_iadd :: "pyval \<Rightarrow> tensor \<Rightarrow> error + pyval" where
  "py_iadd acc t =
     (case acc of
        PyNum x \<Rightarrow> Inr (PyTensor (tensor_map (\<lambda>y. x + y) t))
      | PyTensor a \<Rightarrow> lift1 PyTensor (tensor_binop (+) a t))"

definition py_idiv :: "pyval \<Rightarrow> int \<Rightarrow> error + pyval" where
  "py_idiv acc n =
     (case acc of
        PyNum x \<Rightarrow> if n = 0 then Inl ZeroDivisionError else Inr (PyNum (x / real_of_int n))
      | PyTensor a \<Rightarrow> Inr (PyTensor (tensor_map (\<lambda>x. x / real_of_int n) a)))"

definition tensor_sub_py :: "tensor \<Rightarrow> pyval \<Rightarrow> error + tensor" where
  "tensor_sub_py a v =
     (case v of
        PyNum x \<Rightarrow> Inr (tensor_map (\<lambda>y. y - x) a)
      | PyTensor b \<Rightarrow> tensor_binop (-) a b)"

text \<open>
  \<^verbatim>\<open>
  def kl_radial_bnn_with_diag_gauss(mean_a, std_a, mean_b, std_b,
                                    ce_sample_size=10, generator=None):
      entropy = - torch.log(torch.cat([t.view(-1) for t in std_a])).sum()
      cross_entropy = 0
      for n in range(ce_sample_size):
          sample = sample_diag_gauss(mean_a, std_a, generator=generator, is_radial=True)
          for i in range(len(mean_b)):
              p_b = Normal(mean_b[i], std_b[i])
              cross_entropy += p_b.log_prob(sample[i]).sum()
      cross_entropy /= ce_sample_size
      return entropy - cross_entropy
  \<close>
\<close>

fun cross_entropy_inner ::
  "nat list \<Rightarrow> tensor list \<Rightarrow> tensor list \<Rightarrow> tensor list \<Rightarrow> pyval \<Rightarrow> error + pyval" where
  "cross_entropy_inner [] mean_b std_b sample cross_entropy = Inr cross_entropy"
| "cross_entropy_inner (i # rest) mean_b std_b sample cross_entropy =
     (case lift2 Normal (py_index mean_b i) (py_index std_b i) of
        Inl e \<Rightarrow> Inl e
      | Inr p_b \<Rightarrow>
         (case t_sum (lift2 log_prob (Inr p_b) (py_index sample i)) of
            Inl e \<Rightarrow> Inl e
          | Inr lp \<Rightarrow>
             (case py_iadd cross_entropy lp of
                Inl e \<Rightarrow> Inl e
              | Inr cross_entropy' \<Rightarrow>
                  cross_entropy_inner rest mean_b std_b sample cross_entropy')))"

fun cross_entropy_outer ::
  "nat \<Rightarrow> tensor list \<Rightarrow> tensor list \<Rightarrow> tensor list \<Rightarrow> tensor list \<Rightarrow> pyval \<Rightarrow> generator
     \<Rightarrow> error + pyval \<times> generator" where
  "cross_entropy_outer 0 mean_a std_a mean_b std_b cross_entropy g = Inr (cross_entropy, g)"
| "cross_entropy_outer (Suc k) mean_a std_a mean_b std_b cross_entropy g =
     (case sample_diag_gauss mean_a std_a g True of
        Inl e \<Rightarrow> Inl e
      | Inr (sample, g') \<Rightarrow>
         (case cross_entropy_inner [0..<length mean_b] mean_b std_b sample cross_entropy of
            Inl e \<Rightarrow> Inl e
          | Inr cross_entropy' \<Rightarrow>
              cross_entropy_outer k mean_a std_a mean_b std_b cross_entropy' g'))"

definition kl_radial_bnn_with_diag_gauss ::
  "tensor list \<Rightarrow> tensor list \<Rightarrow> tensor list \<Rightarrow> tensor list \<Rightarrow> int \<Rightarrow> generator
     \<Rightarrow> error + tensor \<times> generator" where
  "kl_radial_bnn_with_diag_gauss mean_a std_a mean_b std_b ce_sample_size g =
     (case t_map uminus (t_sum (t_map ln (cat_view std_a))) of
        Inl e \<Rightarrow> Inl e
      | Inr entropy \<Rightarrow>
         (case cross_entropy_outer (nat ce_sample_size) mean_a std_a mean_b std_b (PyNum 0) g of
            Inl e \<Rightarrow> Inl e
          | Inr (cross_entropy, g') \<Rightarrow>
             (case py_idiv cross_entropy ce_sample_size of
                Inl e \<Rightarrow> Inl e
              | Inr cross_entropy' \<Rightarrow>
                 (case tensor_sub_py entropy cross_entropy' of
                    Inl e \<Rightarrow> Inl e
                  | Inr kl \<Rightarrow> Inr (kl, g')))))"

section \<open>Hypernetwork outputs\<close>

text \<open>
  Both functions first emit a \<^verbatim>\<open>DeprecationWarning\<close>, which is not part of the model.
  \<^verbatim>\<open>
  def extract_mean_std(hnet_outputs, return_logvar=False):
      assert (len(hnet_outputs) % 2 == 0)
      n = len(hnet_outputs) // 2
      mean = hnet_outputs[n:]
      logvar = hnet_outputs[:n]
      std = [torch.exp(0.5 * logvar[i]) for i in range(n)]
      if return_logvar:
          return mean, std, logvar
      return mean, std
  \<close>
\<close>

definition extract_mean_std ::
  "tensor list \<Rightarrow> bool \<Rightarrow> error + tensor list \<times> tensor list \<times> tensor list option" where
  "extract_mean_std hnet_outputs return_logvar =
     (if length hnet_outputs mod 2 \<noteq> 0 then Inl AssertionError
      else
        (let n = length hnet_outputs div 2;
             mean = drop n hnet_outputs;
             logvar = take n hnet_outputs;
             std = map (\<lambda>i. tensor_map (\<lambda>x. exp (0.5 * x)) (logvar ! i)) [0..<n]
         in if return_logvar then Inr (mean, std, Some logvar)
            else Inr (mean, std, None)))"

text \<open>
  \<^verbatim>\<open>Normal.rsample()\<close>: \<^verbatim>\<open>loc + eps * scale\<close> for standard normal draws \<^verbatim>\<open>eps\<close> of the
  distribution's shape.
\<close>

definition rsample :: "normal_dist \<Rightarrow> generator \<Rightarrow> error + tensor \<times> generator" where
  "rsample p g =
     (case normal (zeros_like (loc p)) 1 g of
        (eps, g') \<Rightarrow>
          (case t_add (Inr (loc p)) (t_mul (Inr eps) (Inr (scale p))) of
             Inl e \<Rightarrow> Inl e
           | Inr s \<Rightarrow> Inr (s, g')))"

text \<open>
  \<^verbatim>\<open>
  def sample_diag_gaus_from_hnet(hnet_outputs):
      assert (len(hnet_outputs) % 2 == 0)
      n = len(hnet_outputs) // 2
      mu = hnet_outputs[n:]
      logvar = hnet_outputs[:n]
      sample = []
      for i in range(n):
          std = torch.exp(0.5 * logvar[i])
          sample.append(Normal(mu[i], std).rsample())
      return sample
  \<close>
\<close>

fun sample_diag_gaus_from_hnet_loop ::
  "nat list \<Rightarrow> tensor list \<Rightarrow> tensor list \<Rightarrow> tensor list \<Rightarrow> generator
     \<Rightarrow> error + tensor list \<times> generator" where
  "sample_diag_gaus_from_hnet_loop [] mu logvar sample g = Inr (sample, g)"
| "sample_diag_gaus_from_hnet_loop (i # rest) mu logvar sample g =
     (case lift1 (tensor_map (\<lambda>x. exp (0.5 * x))) (py_index logvar i) of
        Inl e \<Rightarrow> Inl e
      | Inr std \<Rightarrow>
         (case lift2 Normal (py_index mu i) (Inr std) of
            Inl e \<Rightarrow> Inl e
          | Inr p \<Rightarrow>
             (case rsample p g of
                Inl e \<Rightarrow> Inl e
              | Inr (s, g') \<Rightarrow> sample_diag_gaus_from_hnet_loop rest mu logvar (sample @ [s]) g')))"

definition sample_diag_gaus_from_hnet ::
  "tensor list \<Rightarrow> generator \<Rightarrow> error + tensor list \<times> generator" where
  "sample_diag_gaus_from_hnet hnet_outputs g =
     (if length hnet_outputs mod 2 \<noteq> 0 then Inl AssertionError
      else
        (let n = length hnet_outputs div 2;
             mu = drop n hnet_outputs;
             logvar = take n hnet_outputs
         in sample_diag_gaus_from_hnet_loop [0..<n] mu logvar [] g))"

section \<open>Gaussian mixtures\<close>

text \<open>
  \<^verbatim>\<open>torch.nn.functional.softmax(t, dim=d)\<close>: along dimension \<open>d\<close> every element is replaced by
  its exponential over the sum of the exponentials of the elements that differ from it in
  the index of that dimension only. A 0-dimensional tensor counts as one of a single
  element along dimension 0; another dimension that the tensor does not have is an
  \<^verbatim>\<open>IndexError\<close>.
\<close>

definition softmax :: "tensor \<Rightarrow> nat \<Rightarrow> error + tensor" where
  "softmax t dim_arg =
     (if shape t \<noteq> [] \<and> length (shape t) \<le> dim_arg then Inl IndexError
      else if shape t = [] \<and> 0 < dim_arg then Inl IndexError
      else
        (let D = (if shape t = [] then 1 else shape t ! dim_arg);
             I = prod_list (drop (Suc dim_arg) (shape t))
         in Inr (Tensor (shape t)
              (map (\<lambda>j. exp (data t ! j)
                        / (\<Sum>m\<leftarrow>[0..<D]. exp (data t ! (j div (D * I) * (D * I) + m * I + j mod I))))
                 [0..<length (data t)]))))"

text \<open>\<^verbatim>\<open>t[i]\<close> on a tensor: the sub-tensor at index \<open>i\<close> of the first dimension.\<close>

definition select0 :: "tensor \<Rightarrow> nat \<Rightarrow> error + tensor" where
  "select0 t i =
     (case shape t of
        [] \<Rightarrow> Inl IndexError
      | d # rest \<Rightarrow>
          if i < d then Inr (Tensor rest (take (prod_list rest) (drop (i * prod_list rest) (data t))))
          else Inl IndexError)"

text \<open>
  \<^verbatim>\<open>
  def compute_coef(num_component):
      result = []
      result.append(1)
      for i in range(num_component - 1):
          result.append((i + 1) * 1000)
      result = result[::-1]
      return result
  \<close>
\<close>

definition compute_coef :: "nat \<Rightarrow> int list" where
  "compute_coef num_component =
     rev (1 # map (\<lambda>i. (int i + 1) * 1000) [0..<num_component - 1])"

definition lift4 ::
  "('a \<Rightarrow> 'b \<Rightarrow> 'c \<Rightarrow> 'd \<Rightarrow> error + 'e)
     \<Rightarrow> error + 'a \<Rightarrow> error + 'b \<Rightarrow> error + 'c \<Rightarrow> error + 'd \<Rightarrow> error + 'e" where
  "lift4 f ra rb rc rd =
     (case ra of Inl e \<Rightarrow> Inl e
      | Inr a \<Rightarrow> (case rb of Inl e \<Rightarrow> Inl e
      | Inr b \<Rightarrow> (case rc of Inl e \<Rightarrow> Inl e
      | Inr c \<Rightarrow> (case rd of Inl e \<Rightarrow> Inl e
      | Inr d \<Rightarrow> f a b c d))))"

text \<open>
  \<^verbatim>\<open>
  def upperbound_kl_mixture_gauss(mixture_gauss_a, mixture_gauss_b):
      num_component = len(mixture_gauss_a[0])
      list_mean_a = mixture_gauss_a[0]
      list_mean_b = mixture_gauss_b[0]
      list_logvar_a = mixture_gauss_a[1]
      list_logvar_b = mixture_gauss_b[1]
      list_coef_a = torch.nn.functional.softmax(mixture_gauss_a[2], dim=0)
      list_coef_b = torch.nn.functional.softmax(mixture_gauss_b[2], dim=0)
      kl = 0.
      coef = compute_coef(num_component=num_component)
      for i in range(num_component):
          kl += torch.sum(list_coef_a[i] *
                  (torch.log(list_coef_a[i]) - torch.log(list_coef_b[i])))
          kl += torch.sum(list_coef_a[i] *
                          kl_gauss(list_mean_a[i], list_logvar_a[i],
                                  list_mean_b[i], list_logvar_b[i]))
      return kl
  \<close>
  The local variable \<^verbatim>\<open>coef\<close> is passed to the loop, as every local variable is in scope
  there. \<open>upperbound_kl_mixture_gauss_body\<close> is the function with the callee that computes
  \<^verbatim>\<open>coef\<close> as a parameter; the function itself calls \<open>compute_coef\<close>.
\<close>

fun upperbound_loop ::
  "nat list \<Rightarrow> int list \<Rightarrow> tensor list \<Rightarrow> tensor list \<Rightarrow> tensor list \<Rightarrow> tensor list
     \<Rightarrow> tensor \<Rightarrow> tensor \<Rightarrow> pyval \<Rightarrow> error + pyval" where
  "upperbound_loop [] coef list_mean_a list_logvar_a list_mean_b list_logvar_b
       list_coef_a list_coef_b kl = Inr kl"
| "upperbound_loop (i # rest) coef list_mean_a list_logvar_a list_mean_b list_logvar_b
       list_coef_a list_coef_b kl =
     (case t_sum (t_mul (select0 list_coef_a i)
                   (t_sub (t_map ln (select0 list_coef_a i))
                          (t_map ln (select0 list_coef_b i)))) of
        Inl e \<Rightarrow> Inl e
      | Inr term1 \<Rightarrow>
     (case py_iadd kl term1 of
        Inl e \<Rightarrow> Inl e
      | Inr kl1 \<Rightarrow>
     (case t_sum (t_mul (select0 list_coef_a i)
                   (lift4 kl_gauss (py_index list_mean_a i) (py_index list_logvar_a i)
                                   (py_index list_mean_b i) (py_index list_logvar_b i))) of
        Inl e \<Rightarrow> Inl e
      | Inr term2 \<Rightarrow>
     (case py_iadd kl1 term2 of
        Inl e \<Rightarrow> Inl e
      | Inr kl2 \<Rightarrow>
          upperbound_loop rest coef list_mean_a list_logvar_a list_mean_b list_logvar_b
            list_coef_a list_coef_b kl2))))"

definition upperbound_kl_mixture_gauss_body ::
  "(nat \<Rightarrow> int list) \<Rightarrow> tensor list \<times> tensor list \<times> tensor
     \<Rightarrow> tensor list \<times> tensor list \<times> tensor \<Rightarrow> error + pyval" where
  "upperbound_kl_mixture_gauss_body compute_coef_fn mixture_gauss_a mixture_gauss_b =
     (case mixture_gauss_a of (list_mean_a, list_logvar_a, coef_a) \<Rightarrow>
      case mixture_gauss_b of (list_mean_b, list_logvar_b, coef_b) \<Rightarrow>
        (let num_component = length list_mean_a in
         case softmax coef_a 0 of
           Inl e \<Rightarrow> Inl e
         | Inr list_coef_a \<Rightarrow>
            (case softmax coef_b 0 of
               Inl e \<Rightarrow> Inl e
             | Inr list_coef_b \<Rightarrow>
                (let kl = PyNum 0;
                     coef = compute_coef_fn num_component
                 in upperbound_loop [0..<num_component] coef
                      list_mean_a list_logvar_a list_mean_b list_logvar_b
                      list_coef_a list_coef_b kl))))"

definition upperbound_kl_mixture_gauss ::
  "tensor list \<times> tensor list \<times> tensor \<Rightarrow> tensor list \<times> tensor list \<times> tensor
     \<Rightarrow> error + pyval" where
  "upperbound_kl_mixture_gauss = upperbound_kl_mixture_gauss_body compute_coef"

section \<open>Gumbel-softmax sampling\<close>

text \<open>\<^verbatim>\<open>len(t)\<close> on a tensor: the size of its first dimension; a 0-dimensional tensor has none.\<close>

definition tensor_len :: "tensor \<Rightarrow> error + nat" where
  "tensor_len t = (case shape t of [] \<Rightarrow> Inl TypeError | d # rest \<Rightarrow> Inr d)"

text \<open>\<^verbatim>\<open>torch.unsqueeze(t, d)\<close>: a dimension of size 1 is inserted at position \<open>d\<close>.\<close>

definition unsqueeze :: "tensor \<Rightarrow> nat \<Rightarrow> error + tensor" where
  "unsqueeze t d =
     (if d \<le> length (shape t) then Inr (Tensor (take d (shape t) @ 1 # drop d (shape t)) (data t))
      else Inl IndexError)"

text \<open>
  \<^verbatim>\<open>torch.tile(t, reps)\<close>: the shorter of shape and \<open>reps\<close> is filled with ones at the front,
  and the tensor is repeated \<open>reps\<close> times along every dimension.
\<close>

fun tile_data :: "nat list \<Rightarrow> nat list \<Rightarrow> real list \<Rightarrow> real list" where
  "tile_data (s # ss) (r # rs) d =
     concat (replicate r (concat (map (\<lambda>i. tile_data ss rs
                (take (prod_list ss) (drop (i * prod_list ss) d))) [0..<s])))"
| "tile_data ss rs d = d"

definition tile :: "tensor \<Rightarrow> nat list \<Rightarrow> tensor" where
  "tile t reps =
     (let sh = replicate (length reps - length (shape t)) 1 @ shape t;
          rs = replicate (length (shape t) - length reps) 1 @ reps
      in Tensor (map2 (*) sh rs) (tile_data sh rs (data t)))"

text \<open>
  \<^verbatim>\<open>torch.rand(size=...)\<close> takes its uniform draws from the global generator, here \<open>rng\<close>,
  whatever \<^verbatim>\<open>generator\<close> the caller passes.
\<close>

definition rand :: "nat list \<Rightarrow> generator \<Rightarrow> tensor \<times> generator" where
  "rand size_arg g = (Tensor size_arg (draws g (prod_list size_arg)), advance g (prod_list size_arg))"

text \<open>
  \<^verbatim>\<open>
  def sample_gumbel(mean, rho, logvar_enc, coef, tau, gauss_mixture, K,
                    d_in, d_out, is_bias, generator, is_radial):
      assert len(mean) == len(rho) and len(mean) == len(coef)
      sample = []
      device = mean[0][0].device if len(mean) > 0 else None
      for i in range(len(mean)):
          if logvar_enc:
              std = torch.exp(0.5 * rho[i])
          else:
              std = F.softplus(rho[i])
          if not is_bias:
              zero_term = (K, gauss_mixture, d_in, d_out)
              coef_expand = torch.tile(torch.unsqueeze(coef, 0), [K, 1, 1, 1])
          else:
              zero_term = (K, gauss_mixture, 1, d_out)
              coef_expand = torch.tile(torch.unsqueeze(
                  torch.unsqueeze(coef, 0), 2), [K, 1, 1, 1])
          eps = 1e-20
          gumbel_sample = torch.rand(size=zero_term)
          gumbel_sample = -torch.log(-torch.log(gumbel_sample + eps) + eps)
          coff_expand_softmax = torch.nn.functional.softmax(coef_expand, dim=1)
          coff_expand_softmax_gumbel = torch.nn.functional.softmax(
              1. / tau * (torch.log(coff_expand_softmax) + gumbel_sample), dim=1)
          return coff_expand_softmax_gumbel
      return sample
  \<close>
  The function returns a tensor from inside the loop or the list \<^verbatim>\<open>sample\<close> after it. The
  body of the loop ends in \<^verbatim>\<open>return\<close>, so the equation for a non-empty range of indices
  has no recursive call. \<^verbatim>\<open>tau\<close> is a Python number: dividing by it raises when it is 0.
\<close>

datatype gumbel_result = Single tensor | Samples "tensor list"

fun sample_gumbel_loop ::
  "nat list \<Rightarrow> tensor list \<Rightarrow> bool \<Rightarrow> tensor \<Rightarrow> real \<Rightarrow> nat \<Rightarrow> nat \<Rightarrow> nat \<Rightarrow> nat \<Rightarrow> bool
     \<Rightarrow> tensor list \<Rightarrow> generator \<Rightarrow> error + gumbel_result \<times> generator" where
  "sample_gumbel_loop [] rho logvar_enc coef tau gauss_mixture K d_in d_out is_bias sample rng =
     Inr (Samples sample, rng)"
| "sample_gumbel_loop (i # rest) rho logvar_enc coef tau gauss_mixture K d_in d_out is_bias
       sample rng =
     (case lift1 (decode_std logvar_enc) (py_index rho i) of
        Inl e \<Rightarrow> Inl e
      | Inr std \<Rightarrow>
         (let zero_term = (if \<not> is_bias then [K, gauss_mixture, d_in, d_out]
                           else [K, gauss_mixture, 1, d_out]);
              coef_expand =
                (if \<not> is_bias then lift1 (\<lambda>t. tile t [K, 1, 1, 1]) (unsqueeze coef 0)
                 else lift1 (\<lambda>t. tile t [K, 1, 1, 1])
                        (lift2 unsqueeze (unsqueeze coef 0) (Inr 2)))
          in case coef_expand of
               Inl e \<Rightarrow> Inl e
             | Inr coef_expand \<Rightarrow>
                (case rand zero_term rng of
                   (uniform_sample, rng') \<Rightarrow>
                     (let eps = 1 / 10 ^ 20;
                          gumbel_sample =
                            t_map uminus (t_map ln (t_map (\<lambda>x. x + eps)
                              (t_map uminus (t_map ln (t_map (\<lambda>x. x + eps) (Inr uniform_sample))))))
                      in case softmax coef_expand 1 of
                           Inl e \<Rightarrow> Inl e
                         | Inr coff_expand_softmax \<Rightarrow>
                            if tau = 0 then Inl ZeroDivisionError
                            else
                              (case t_map (\<lambda>x. 1 / tau * x)
                                      (t_add (t_map ln (Inr coff_expand_softmax)) gumbel_sample) of
                                 Inl e \<Rightarrow> Inl e
                               | Inr logits \<Rightarrow>
                                  (case softmax logits 1 of
                                     Inl e \<Rightarrow> Inl e
                                   | Inr coff_expand_softmax_gumbel \<Rightarrow>
                                       Inr (Single coff_expand_softmax_gumbel, rng')))))))"

definition sample_gumbel ::
  "tensor list \<Rightarrow> tensor list \<Rightarrow> bool \<Rightarrow> tensor \<Rightarrow> real \<Rightarrow> nat \<Rightarrow> nat \<Rightarrow> nat \<Rightarrow> nat \<Rightarrow> bool
     \<Rightarrow> generator \<Rightarrow> bool \<Rightarrow> generator \<Rightarrow> error + gumbel_result \<times> generator" where
  "sample_gumbel mean rho logvar_enc coef tau gauss_mixture K d_in d_out is_bias generator
       is_radial rng =
     (if length mean \<noteq> length rho then Inl AssertionError
      else
        (case tensor_len coef of
           Inl e \<Rightarrow> Inl e
         | Inr len_coef \<Rightarrow>
            if length mean \<noteq> len_coef then Inl AssertionError
            else
              (case (if length mean > 0 then lift1 (\<lambda>t. ()) (lift2 select0 (py_index mean 0) (Inr 0))
                     else Inr ()) of
                 Inl e \<Rightarrow> Inl e
               | Inr device \<Rightarrow>
                   sample_gumbel_loop [0..<length mean] rho logvar_enc coef tau gauss_mixture K
                     d_in d_out is_bias [] rng)))"

section \<open>The hyperparameter-search configuration modules\<close>

text \<open>
  The two modules \<^verbatim>\<open>prob_cifar/hpsearch_config_zenke_bbb_mixture.py\<close> and
  \<^verbatim>\<open>prob_gmm/hpsearch_config_gmm_ssge.py\<close> are run once, at import, statement by statement.
  A module's namespace is a record of its data attributes (the three function handles
  \<^verbatim>\<open>_SUMMARY_PARSER_HANDLE\<close>, \<^verbatim>\<open>_PERFORMANCE_EVAL_HANDLE\<close> and \<^verbatim>\<open>_ARGPARSE_HANDLE\<close> are left
  out), every top-level assignment is an update of the record, and the attributes the
  modules read from the modules they import are parameters, since those modules are not
  among the sources. A grid is a dictionary from option names to lists of values, written
  as the list of its items in the order of the literal; a condition is a pair of two such
  dictionaries.
\<close>

datatype pyconst = PyInt int | PyFloat real | PyBool bool | PyStr string

type_synonym grid_dict = "(string \<times> pyconst list) list"

type_synonym condition = "grid_dict \<times> grid_dict"

record hpsearch_config =
  grid :: grid_dict
  conditions :: "condition list"
  SCRIPT_NAME :: string
  SUMMARY_FILENAME :: string
  SUMMARY_KEYWORDS :: "string list"
  OUT_ARG :: string
  PERFORMANCE_KEY :: "string option"
  PERFORMANCE_SORT_ASC :: bool

definition unset_module :: hpsearch_config where
  "unset_module =
     \<lparr>grid = [], conditions = [], SCRIPT_NAME = [], SUMMARY_FILENAME = [], SUMMARY_KEYWORDS = [],
      OUT_ARG = [], PERFORMANCE_KEY = None, PERFORMANCE_SORT_ASC = False\<rparr>"

text \<open>
  \<^verbatim>\<open>assert(_PERFORMANCE_KEY is None or _PERFORMANCE_KEY in _SUMMARY_KEYWORDS)\<close>
\<close>

definition check_performance_key :: "hpsearch_config \<Rightarrow> error + hpsearch_config" where
  "check_performance_key m =
     (case PERFORMANCE_KEY m of
        None \<Rightarrow> Inr m
      | Some k \<Rightarrow> if k \<in> set (SUMMARY_KEYWORDS m) then Inr m else Inl AssertionError)"

text \<open>
  \<^verbatim>\<open>
  from probabilistic.prob_mnist import hpsearch_config_split_bbb_mixture as hpsplit
  grid = {
      'beta' : [0.01],
      'cl_scenario' : [1],
      'use_adam' : [True],
      'radial_bnn': [False],
      'hnet_type' : ['hmlp'],
      'disable_data_augmentation' : [True],
  }
  conditions = [
  ]
  conditions = conditions + hpsplit._BASE_CONDITIONS  + hpsplit._BBB_CONDITIONS
  _SCRIPT_NAME = 'train_zenke_bbb.py'
  _SUMMARY_FILENAME = 'performance_overview.txt'
  _SUMMARY_KEYWORDS = hpsplit._SUMMARY_KEYWORDS
  _OUT_ARG = 'out_dir'
  _PERFORMANCE_KEY = 'acc_avg_final'
  assert(_PERFORMANCE_KEY is None or _PERFORMANCE_KEY in _SUMMARY_KEYWORDS)
  _PERFORMANCE_SORT_ASC = False
  \<close>
  All other entries of the grid are commented out in the source.
\<close>

definition zenke_bbb_mixture_grid :: grid_dict where
  "zenke_bbb_mixture_grid =
     [(''beta'', [PyFloat 0.01]),
      (''cl_scenario'', [PyInt 1]),
      (''use_adam'', [PyBool True]),
      (''radial_bnn'', [PyBool False]),
      (''hnet_type'', [PyStr ''hmlp'']),
      (''disable_data_augmentation'', [PyBool True])]"

definition zenke_bbb_mixture_user_conditions :: "condition list" where
  "zenke_bbb_mixture_user_conditions = []"

definition hpsearch_config_zenke_bbb_mixture ::
  "condition list \<Rightarrow> condition list \<Rightarrow> string list \<Rightarrow> error + hpsearch_config" where
  "hpsearch_config_zenke_bbb_mixture hpsplit_BASE_CONDITIONS hpsplit_BBB_CONDITIONS
       hpsplit_SUMMARY_KEYWORDS =
     (let m = unset_module;
          m = m\<lparr>grid := zenke_bbb_mixture_grid\<rparr>;
          m = m\<lparr>conditions := zenke_bbb_mixture_user_conditions\<rparr>;
          m = m\<lparr>conditions := (conditions m @ hpsplit_BASE_CONDITIONS)
                                 @ hpsplit_BBB_CONDITIONS\<rparr>;
          m = m\<lparr>SCRIPT_NAME := ''train_zenke_bbb.py''\<rparr>;
          m = m\<lparr>SUMMARY_FILENAME := ''performance_overview.txt''\<rparr>;
          m = m\<lparr>SUMMARY_KEYWORDS := hpsplit_SUMMARY_KEYWORDS\<rparr>;
          m = m\<lparr>OUT_ARG := ''out_dir''\<rparr>;
          m = m\<lparr>PERFORMANCE_KEY := Some ''acc_avg_final''\<rparr>
      in case check_performance_key m of
           Inl e \<Rightarrow> Inl e
         | Inr m \<Rightarrow> Inr (m\<lparr>PERFORMANCE_SORT_ASC := False\<rparr>))"

text \<open>
  \<^verbatim>\<open>
  from probabilistic.prob_mnist import hpsearch_config_split_bbb as hpsplitbbb
  from probabilistic.prob_mnist import hpsearch_config_split_ssge as hpsplitssge
  grid = {
      'beta' : [1.],
      'use_adam' : [True],
      'imp_hnet_type' : ['hmlp'],
      'hh_hnet_type' : ['hmlp'],
      'full_support_perturbation' : [-1],
  }
  conditions = [
  ]
  conditions = conditions + hpsplitbbb._BASE_CONDITIONS + \
      hpsplitssge._SSGE_CONDITIONS
  _SCRIPT_NAME = 'train_gmm_ssge.py'
  _SUMMARY_FILENAME = hpsplitssge._SUMMARY_FILENAME
  _SUMMARY_KEYWORDS = hpsplitssge._SUMMARY_KEYWORDS
  _OUT_ARG = 'out_dir'
  _PERFORMANCE_KEY = 'acc_avg_final'
  assert(_PERFORMANCE_KEY is None or _PERFORMANCE_KEY in _SUMMARY_KEYWORDS)
  _PERFORMANCE_SORT_ASC = False
  \<close>
\<close>

definition gmm_ssge_grid :: grid_dict where
  "gmm_ssge_grid =
     [(''beta'', [PyFloat 1.0]),
      (''use_adam'', [PyBool True]),
      (''imp_hnet_type'', [PyStr ''hmlp'']),
      (''hh_hnet_type'', [PyStr ''hmlp'']),
      (''full_support_perturbation'', [PyInt (- 1)])]"

definition gmm_ssge_user_conditions :: "condition list" where
  "gmm_ssge_user_conditions = []"

definition hpsearch_config_gmm_ssge ::
  "condition list \<Rightarrow> condition list \<Rightarrow> string \<Rightarrow> string list \<Rightarrow> error + hpsearch_config" where
  "hpsearch_config_gmm_ssge hpsplitbbb_BASE_CONDITIONS hpsplitssge_SSGE_CONDITIONS
       hpsplitssge_SUMMARY_FILENAME hpsplitssge_SUMMARY_KEYWORDS =
     (let m = unset_module;
          m = m\<lparr>grid := gmm_ssge_grid\<rparr>;
          m = m\<lparr>conditions := gmm_ssge_user_conditions\<rparr>;
          m = m\<lparr>conditions := (conditions m @ hpsplitbbb_BASE_CONDITIONS)
                                 @ hpsplitssge_SSGE_CONDITIONS\<rparr>;
          m = m\<lparr>SCRIPT_NAME := ''train_gmm_ssge.py''\<rparr>;
          m = m\<lparr>SUMMARY_FILENAME := hpsplitssge_SUMMARY_FILENAME\<rparr>;
          m = m\<lparr>SUMMARY_KEYWORDS := hpsplitssge_SUMMARY_KEYWORDS\<rparr>;
          m = m\<lparr>OUT_ARG := ''out_dir''\<rparr>;
          m = m\<lparr>PERFORMANCE_KEY := Some ''acc_avg_final''\<rparr>
      in case check_performance_key m of
           Inl e \<Rightarrow> Inl e
         | Inr m \<Rightarrow> Inr (m\<lparr>PERFORMANCE_SORT_ASC := False\<rparr>))"

section \<open>What the statements below speak of\<close>

text \<open>The elements of a list of tensors, flattened and concatenated.\<close>

definition flat :: "tensor list \<Rightarrow> real list" where
  "flat ts = concat (map data ts)"

text \<open>
  Two lists of tensors match when they are equally long and the tensors at every index
  are well formed and have the same shape.
\<close>

definition matching :: "tensor list \<Rightarrow> tensor list \<Rightarrow> bool" where
  "matching xs ys \<longleftrightarrow>
     list_all2 (\<lambda>a b. wf_tensor a \<and> wf_tensor b \<and> shape a = shape b) xs ys"

text \<open>The Euclidean norm of a sequence of numbers.\<close>

definition l2norm :: "real list \<Rightarrow> real" where
  "l2norm xs = sqrt (\<Sum>x\<leftarrow>xs. x\<^sup>2)"

text \<open>
  A sample of the radial posterior: \<open>mean + std * (eps / ||eps||) * r\<close>, element by element,
  for a direction \<open>eps\<close> and a radius \<open>r\<close>.
\<close>

definition radial_point :: "tensor \<Rightarrow> tensor \<Rightarrow> real list \<Rightarrow> real \<Rightarrow> tensor" where
  "radial_point m s eps r =
     Tensor (shape m)
       (map (\<lambda>j. data m ! j + data s ! j * (eps ! j / l2norm eps) * r) [0..<numel m])"

text \<open>
  Where the draws of a call of \<open>sample_diag_gauss\<close> with \<^verbatim>\<open>is_radial=True\<close> lie on the
  generator's tape: parameter tensor \<open>i\<close> takes one draw for each of its elements (the
  direction \<open>eps\<close>) and then one more (the radius \<open>r\<close>).
\<close>

definition eps_start :: "tensor list \<Rightarrow> generator \<Rightarrow> nat \<Rightarrow> nat" where
  "eps_start mean g i = pos g + (\<Sum>m\<leftarrow>take i mean. numel m + 1)"

definition eps_of :: "tensor list \<Rightarrow> generator \<Rightarrow> nat \<Rightarrow> real list" where
  "eps_of mean g i =
     map (tape g) [eps_start mean g i..<eps_start mean g i + numel (mean ! i)]"

definition radius_of :: "tensor list \<Rightarrow> generator \<Rightarrow> nat \<Rightarrow> real" where
  "radius_of mean g i = tape g (eps_start mean g i + numel (mean ! i))"

text \<open>The density of the normal distribution with mean \<open>mu\<close> and standard deviation \<open>sigma\<close>.\<close>

definition gauss_density :: "real \<Rightarrow> real \<Rightarrow> real \<Rightarrow> real" where
  "gauss_density mu sigma x = exp (- (x - mu)\<^sup>2 / (2 * sigma\<^sup>2)) / (sigma * sqrt (2 * pi))"

text \<open>
  The draws one radial sample takes, and the sample that the call number \<open>n\<close> (from 0) of
  \<open>sample_diag_gauss\<close> with \<^verbatim>\<open>is_radial=True\<close> returns when the calls before it have advanced
  the generator.
\<close>

definition draws_per_sample :: "tensor list \<Rightarrow> nat" where
  "draws_per_sample mean = (\<Sum>m\<leftarrow>mean. numel m + 1)"

definition drawn_sample :: "tensor list \<Rightarrow> tensor list \<Rightarrow> generator \<Rightarrow> nat \<Rightarrow> tensor list" where
  "drawn_sample mean std g n =
     (case sample_diag_gauss mean std (advance g (n * draws_per_sample mean)) True of
        Inl e \<Rightarrow> []
      | Inr (sample, g') \<Rightarrow> sample)"

text \<open>The log-density of a tensor under a diagonal Gaussian, summed over its elements.\<close>

definition log_density :: "tensor \<Rightarrow> tensor \<Rightarrow> tensor \<Rightarrow> real" where
  "log_density m s x =
     (\<Sum>e<numel m. ln (gauss_density (data m ! e) (data s ! e) (data x ! e)))"

text \<open>Standard deviations are positive.\<close>

definition positive :: "tensor list \<Rightarrow> bool" where
  "positive ts = list_all (\<lambda>t. list_all (\<lambda>x. 0 < x) (data t)) ts"

text \<open>
  The mixture weights: the softmax over dimension 0 of the coefficient logits \<open>c\<close>, for
  component \<open>i\<close> and element \<open>q\<close> of the component's coefficient tensor.
\<close>

definition mix_weight :: "tensor \<Rightarrow> nat \<Rightarrow> nat \<Rightarrow> real" where
  "mix_weight c i q =
     exp (data c ! (i * prod_list (tl (shape c)) + q))
       / (\<Sum>k<hd (shape c). exp (data c ! (k * prod_list (tl (shape c)) + q)))"

text \<open>The KL divergence between two univariate Gaussians given by mean and log-variance.\<close>

definition gauss_kl :: "real \<Rightarrow> real \<Rightarrow> real \<Rightarrow> real \<Rightarrow> real" where
  "gauss_kl mean_a logvar_a mean_b logvar_b =
     0.5 * (exp (logvar_a - logvar_b) + (mean_a - mean_b)\<^sup>2 * exp (- logvar_b)
            + logvar_b - logvar_a - 1)"

text \<open>
  The term of component \<open>i\<close> in the bound:
  \<open>sum (ca_i * (log ca_i - log cb_i)) + sum (ca_i * kl_gauss (...))\<close>. A coefficient tensor
  with one element per component is the same weight for every element of the component.
\<close>

definition mixture_bound_term ::
  "tensor \<Rightarrow> tensor \<Rightarrow> tensor \<Rightarrow> tensor \<Rightarrow> tensor \<Rightarrow> tensor \<Rightarrow> nat \<Rightarrow> real" where
  "mixture_bound_term coef_a coef_b mean_a logvar_a mean_b logvar_b i =
     (\<Sum>q<prod_list (tl (shape coef_a)).
         mix_weight coef_a i q * (ln (mix_weight coef_a i q) - ln (mix_weight coef_b i q)))
     + (\<Sum>p<numel mean_a.
         mix_weight coef_a i (p mod prod_list (tl (shape coef_a)))
           * gauss_kl (data mean_a ! p) (data logvar_a ! p) (data mean_b ! p) (data logvar_b ! p))"

text \<open>
  Gumbel noise from a uniform draw \<open>u\<close>, the logit of element \<open>j\<close> of the tiled tensor of
  shape \<open>[K, M, a, b]\<close> with \<open>I = a * b\<close>, at temperature \<open>tau\<close>: the log of the softmax of the
  coefficient logits plus the noise of the draw number \<open>j\<close>, and the softmax of these logits
  over dimension 1.
\<close>

definition gumbel_noise :: "real \<Rightarrow> real" where
  "gumbel_noise u = - ln (- ln (u + 1 / 10 ^ 20) + 1 / 10 ^ 20)"

definition gumbel_logit :: "tensor \<Rightarrow> real \<Rightarrow> generator \<Rightarrow> nat \<Rightarrow> nat \<Rightarrow> nat \<Rightarrow> real" where
  "gumbel_logit coef tau rng M I j =
     1 / tau * (ln (mix_weight coef (j mod (M * I) div I) (j mod I))
                + gumbel_noise (tape rng (pos rng + j)))"

definition gumbel_softmax :: "tensor \<Rightarrow> real \<Rightarrow> generator \<Rightarrow> nat \<Rightarrow> nat \<Rightarrow> nat \<Rightarrow> real" where
  "gumbel_softmax coef tau rng M I j =
     exp (gumbel_logit coef tau rng M I j)
       / (\<Sum>m<M. exp (gumbel_logit coef tau rng M I (j div (M * I) * (M * I) + m * I + j mod I)))"

section \<open>Lemmas about the tensor operations\<close>

lemma matching_length_flat:
  "matching xs ys \<Longrightarrow> length (flat xs) = length (flat ys)"
  unfolding matching_def flat_def
  by (induction xs ys rule: list_all2_induct) (auto simp: wf_tensor_def)

lemma map2_same_index:
  "map2 f (map g js) (map h js) = map (\<lambda>j. f (g j) (h j)) js"
  by (induction js) auto

lemma as_index_map: "length xs = n \<Longrightarrow> xs = map (\<lambda>j. xs ! j) [0..<n]"
  by (auto simp: map_nth)

lemma cat_view_index:
  "ts \<noteq> [] \<Longrightarrow> length (flat ts) = n \<Longrightarrow>
     cat_view ts = Inr (Tensor [n] (map (\<lambda>j. flat ts ! j) [0..<n]))"
  unfolding cat_view_def flat_def by (auto simp: map_nth)

lemma t_map_index [simp]:
  "t_map f (Inr (Tensor s (map g js))) = Inr (Tensor s (map (\<lambda>j. f (g j)) js))"
  by (simp add: t_map_def lift1_def tensor_map_def comp_def)

lemma t_map_single [simp]:
  "t_map f (Inr (Tensor s [x])) = Inr (Tensor s [f x])"
  by (simp add: t_map_def lift1_def tensor_map_def)

lemma binop_index:
  "lift2 (tensor_binop f) (Inr (Tensor s (map g js))) (Inr (Tensor s (map h js)))
     = Inr (Tensor s (map (\<lambda>j. f (g j) (h j)) js))"
  by (simp add: lift2_def tensor_binop_def map2_same_index)

lemma t_add_index [simp]:
  "t_add (Inr (Tensor s (map g js))) (Inr (Tensor s (map h js)))
     = Inr (Tensor s (map (\<lambda>j. g j + h j) js))"
  unfolding t_add_def by (rule binop_index)

lemma t_sub_index [simp]:
  "t_sub (Inr (Tensor s (map g js))) (Inr (Tensor s (map h js)))
     = Inr (Tensor s (map (\<lambda>j. g j - h j) js))"
  unfolding t_sub_def by (rule binop_index)

lemma t_mul_index [simp]:
  "t_mul (Inr (Tensor s (map g js))) (Inr (Tensor s (map h js)))
     = Inr (Tensor s (map (\<lambda>j. g j * h j) js))"
  unfolding t_mul_def by (rule binop_index)

lemma t_div_index [simp]:
  "t_div (Inr (Tensor s (map g js))) (Inr (Tensor s (map h js)))
     = Inr (Tensor s (map (\<lambda>j. g j / h j) js))"
  unfolding t_div_def by (rule binop_index)

lemma t_sum_index [simp]:
  "t_sum (Inr (Tensor s (map g [0..<n]))) = Inr (Tensor [] [\<Sum>j<n. g j])"
  by (simp add: t_sum_def lift1_def scalar_tensor_def interv_sum_list_conv_sum_set_nat
      atLeast0LessThan)

lemma binop_single:
  "lift2 (tensor_binop f) (Inr (Tensor s [x])) (Inr (Tensor s [y])) = Inr (Tensor s [f x y])"
  by (simp add: lift2_def tensor_binop_def)

lemma t_add_single [simp]:
  "t_add (Inr (Tensor s [x])) (Inr (Tensor s [y])) = Inr (Tensor s [x + y])"
  unfolding t_add_def by (rule binop_single)

lemma t_sub_single [simp]:
  "t_sub (Inr (Tensor s [x])) (Inr (Tensor s [y])) = Inr (Tensor s [x - y])"
  unfolding t_sub_def by (rule binop_single)

lemma t_norm2_index [simp]:
  "t_norm2 (Inr (Tensor s (map g [0..<n]))) = Inr (Tensor [] [sqrt (\<Sum>j<n. (g j)\<^sup>2)])"
  by (simp add: t_norm2_def lift1_def scalar_tensor_def interv_sum_list_conv_sum_set_nat
      atLeast0LessThan comp_def)

lemma tensor_index:
  "wf_tensor t \<Longrightarrow> shape t = s \<Longrightarrow>
     t = Tensor s (map (\<lambda>j. data t ! j) [0..<prod_list s])"
  by (cases t) (metis map_nth tensor.sel(1) tensor.sel(2) wf_tensor_def)

subsection \<open>Broadcasting a 0-dimensional tensor\<close>

lemma concat_chunks_take:
  "t * p \<le> length d \<Longrightarrow>
     concat (map (\<lambda>k. take p (drop (k * p) d)) [0..<t]) = take (t * p) (d::'a list)"
proof (induction t)
  case 0
  then show ?case by simp
next
  case (Suc t)
  then have "concat (map (\<lambda>k. take p (drop (k * p) d)) [0..<t]) = take (t * p) d"
    by simp
  moreover have "take (Suc t * p) d = take (t * p) d @ take p (drop (t * p) d)"
    by (simp add: take_add [symmetric] add.commute)
  ultimately show ?case by simp
qed

lemma expand_to_same:
  "length d = prod_list s \<Longrightarrow> expand_to s s d = d"
proof (induction s arbitrary: d)
  case Nil
  then show ?case by simp
next
  case (Cons t ts)
  define p where "p = prod_list ts"
  have len: "length d = t * p" using Cons.prems by (simp add: p_def)
  have "expand_to ts ts (take p (drop (k * p) d)) = take p (drop (k * p) d)" if "k < t" for k
  proof (rule Cons.IH)
    have "k * p + p \<le> t * p"
      using that by (metis Suc_leI mult_Suc mult_le_mono1 add.commute)
    then show "length (take p (drop (k * p) d)) = prod_list ts"
      using len by (simp add: p_def)
  qed
  then have m: "map (\<lambda>k. expand_to ts ts (take p (drop (k * p) d))) [0..<t]
             = map (\<lambda>k. take p (drop (k * p) d)) [0..<t]"
    by simp
  have "expand_to (t # ts) (t # ts) d
          = concat (map (\<lambda>k. expand_to ts ts (take p (drop (k * p) d))) [0..<t])"
    by (simp add: p_def)
  also have "\<dots> = take (t * p) d"
    unfolding m using len by (simp add: concat_chunks_take)
  finally show ?case using len by simp
qed

lemma expand_to_scalar:
  "expand_to s [] [y] = replicate (prod_list s) y"
proof (induction s)
  case Nil
  then show ?case by simp
next
  case (Cons t ts)
  have "concat (replicate t (replicate n y)) = replicate (t * n) y" for n
    by (induction t) (simp_all add: replicate_add)
  with Cons show ?case by simp
qed

lemma broadcast_shapes_scalar: "broadcast_shapes s [] = Some s"
  by (cases "rev s") (auto simp: broadcast_shapes_def)

lemma map2_replicate:
  "length d = n \<Longrightarrow> map2 f d (replicate n y) = map (\<lambda>x. f x y) d"
  by (induction d arbitrary: n) auto

lemma tensor_binop_scalar:
  assumes "wf_tensor a"
  shows "tensor_binop f a (Tensor [] [y]) = Inr (Tensor (shape a) (map (\<lambda>x. f x y) (data a)))"
proof (cases "shape a = []")
  case True
  with assms obtain x where "data a = [x]"
    by (cases "data a") (auto simp: wf_tensor_def)
  with True show ?thesis by (simp add: tensor_binop_def)
next
  case False
  with assms show ?thesis
    by (simp add: tensor_binop_def broadcast_shapes_scalar expand_to_same expand_to_scalar
        wf_tensor_def map2_replicate)
qed

lemma map2_zeros:
  "length zs = n \<Longrightarrow> map2 (\<lambda>mu z. mu + 1 * z) (replicate n 0) zs = (zs :: real list)"
  by (induction zs arbitrary: n) auto

lemma normal_zeros_like:
  "normal (zeros_like m) 1 g = (Tensor (shape m) (draws g (numel m)), advance g (numel m))"
proof -
  have "map2 (\<lambda>mu z. mu + 1 * z) (replicate (numel m) 0) (draws g (numel m)) = draws g (numel m)"
    by (rule map2_zeros) (simp add: draws_def)
  then show ?thesis
    by (simp add: normal_def zeros_like_def numel_def)
qed

lemma normal_scalar:
  "normal (scalar_tensor 0) 1 g = (Tensor [] [tape g (pos g)], advance g 1)"
  by (simp add: normal_def scalar_tensor_def numel_def draws_def)

lemma binop_scalar_index:
  assumes "n = prod_list sh"
  shows "lift2 (tensor_binop f) (Inr (Tensor sh (map g [0..<n]))) (Inr (Tensor [] [y]))
           = Inr (Tensor sh (map (\<lambda>j. f (g j) y) [0..<n]))"
proof -
  have "wf_tensor (Tensor sh (map g [0..<n]))"
    using assms by (simp add: wf_tensor_def)
  from tensor_binop_scalar [OF this, of f y] show ?thesis
    by (simp add: lift2_def comp_def)
qed

lemma t_mul_scalar:
  "n = prod_list sh \<Longrightarrow>
     t_mul (Inr (Tensor sh (map g [0..<n]))) (Inr (Tensor [] [y]))
       = Inr (Tensor sh (map (\<lambda>j. g j * y) [0..<n]))"
  unfolding t_mul_def by (rule binop_scalar_index)

lemma t_div_scalar:
  "n = prod_list sh \<Longrightarrow>
     t_div (Inr (Tensor sh (map g [0..<n]))) (Inr (Tensor [] [y]))
       = Inr (Tensor sh (map (\<lambda>j. g j / y) [0..<n]))"
  unfolding t_div_def by (rule binop_scalar_index)

lemma radial_body:
  assumes "wf_tensor m" and "wf_tensor s" and "shape s = shape m" and "length e = numel m"
  shows "t_add (Inr m)
           (t_div (t_mul (t_mul (Inr s) (Inr (Tensor [] [r]))) (Inr (Tensor (shape m) e)))
                  (t_norm2 (Inr (Tensor (shape m) e))))
         = Inr (radial_point m s e r)"
proof -
  define n where "n = numel m"
  define sh where "sh = shape m"
  have n: "n = prod_list sh" using assms(1) by (simp add: n_def sh_def numel_def wf_tensor_def)
  define mf where "mf = (\<lambda>j. data m ! j)"
  define sf where "sf = (\<lambda>j. data s ! j)"
  define ef where "ef = (\<lambda>j. e ! j)"
  have idx: "m = Tensor sh (map mf [0..<n])" "s = Tensor sh (map sf [0..<n])"
    unfolding n mf_def sf_def using assms(1-3) by (auto simp: sh_def intro: tensor_index)
  have e: "e = map ef [0..<n]"
    unfolding ef_def n_def assms(4) [symmetric] by (simp add: map_nth)
  have nrm: "t_norm2 (Inr (Tensor sh (map ef [0..<n]))) = Inr (Tensor [] [l2norm e])"
    by (subst e) (simp add: l2norm_def interv_sum_list_conv_sum_set_nat atLeast0LessThan comp_def)
  have "t_add (Inr m)
           (t_div (t_mul (t_mul (Inr s) (Inr (Tensor [] [r]))) (Inr (Tensor sh (map ef [0..<n]))))
                  (t_norm2 (Inr (Tensor sh (map ef [0..<n])))))
         = Inr (Tensor sh (map (\<lambda>j. mf j + sf j * r * ef j / l2norm e) [0..<n]))"
    unfolding nrm unfolding idx by (simp add: t_mul_scalar [OF n] t_div_scalar [OF n])
  moreover have "radial_point m s e r
         = Tensor sh (map (\<lambda>j. mf j + sf j * (ef j / l2norm e) * r) [0..<n])"
    by (simp add: radial_point_def sh_def n_def mf_def sf_def ef_def)
  ultimately show ?thesis
    unfolding sh_def [symmetric] e [symmetric] by (simp add: mult_ac)
qed

subsection \<open>The sampling loops\<close>

lemma advance_advance [simp]: "advance (advance g a) b = advance g (a + b)"
  by (simp add: advance_def add.assoc)

lemma tape_advance [simp]: "tape (advance g a) = tape g"
  by (simp add: advance_def)

lemma pos_advance [simp]: "pos (advance g a) = pos g + a"
  by (simp add: advance_def)

lemma numel_same_shape:
  "wf_tensor a \<Longrightarrow> wf_tensor b \<Longrightarrow> shape a = shape b \<Longrightarrow> numel a = numel b"
  by (simp add: numel_def wf_tensor_def)

lemma sample_loop_step:
  assumes "i < length std" and "wf_tensor m" and "wf_tensor (std ! i)"
    and "shape (std ! i) = shape m"
  shows "sample_diag_gauss_loop ((i, m) # rest) std True acc g
         = sample_diag_gauss_loop rest std True
             (acc @ [radial_point m (std ! i) (draws g (numel m)) (tape g (pos g + numel m))])
             (advance g (numel m + 1))"
proof -
  have "t_add (Inr m)
      (t_div (t_mul (t_mul (Inr (std ! i)) (Inr (Tensor [] [tape g (pos g + numel m)])))
                    (Inr (Tensor (shape m) (draws g (numel m)))))
             (t_norm2 (Inr (Tensor (shape m) (draws g (numel m))))))
      = Inr (radial_point m (std ! i) (draws g (numel m)) (tape g (pos g + numel m)))"
    using assms by (intro radial_body) (simp_all add: draws_def)
  then show ?thesis
    using assms(1) by (simp add: normal_zeros_like normal_scalar py_index_def)
qed

lemma wf_decode_std [simp]: "wf_tensor (decode_std le t) = wf_tensor t"
  by (simp add: decode_std_def tensor_map_def wf_tensor_def)

lemma shape_decode_std [simp]: "shape (decode_std le t) = shape t"
  by (simp add: decode_std_def tensor_map_def)

lemma numel_decode_std [simp]: "numel (decode_std le t) = numel t"
  by (simp add: decode_std_def tensor_map_def numel_def)

lemma decode_loop_step:
  assumes "i < length mean" and "i < length rho" and "wf_tensor (mean ! i)"
    and "wf_tensor (rho ! i)" and "shape (rho ! i) = shape (mean ! i)"
  shows "decode_and_sample_loop (i # rest) mean rho le True acc g
         = decode_and_sample_loop rest mean rho le True
             (acc @ [radial_point (mean ! i) (decode_std le (rho ! i))
                       (draws g (numel (mean ! i))) (tape g (pos g + numel (mean ! i)))])
             (advance g (numel (mean ! i) + 1))"
proof -
  have nm: "numel (rho ! i) = numel (mean ! i)"
    using assms(3-5) by (intro numel_same_shape) simp_all
  have p: "py_index rho i = Inr (rho ! i)" "py_index mean i = Inr (mean ! i)"
    using assms(1,2) by (simp_all add: py_index_def)
  have z: "normal (zeros_like (decode_std le (rho ! i))) 1 g
             = (Tensor (shape (mean ! i)) (draws g (numel (mean ! i))),
                advance g (numel (mean ! i)))"
    by (simp add: normal_zeros_like nm assms(5))
  have sc: "normal (scalar_tensor 0) 1 (advance g (numel (mean ! i)))
              = (Tensor [] [tape g (pos g + numel (mean ! i))], advance g (numel (mean ! i) + 1))"
    by (simp add: normal_scalar)
  have body: "t_add (Inr (mean ! i))
      (t_div (t_mul (t_mul (Inr (decode_std le (rho ! i)))
                           (Inr (Tensor [] [tape g (pos g + numel (mean ! i))])))
                    (Inr (Tensor (shape (mean ! i)) (draws g (numel (mean ! i))))))
             (t_norm2 (Inr (Tensor (shape (mean ! i)) (draws g (numel (mean ! i)))))))
      = Inr (radial_point (mean ! i) (decode_std le (rho ! i))
               (draws g (numel (mean ! i))) (tape g (pos g + numel (mean ! i))))"
    using assms by (intro radial_body) (simp_all add: draws_def)
  show ?thesis
    unfolding decode_and_sample_loop.simps p lift1_def sum.case z prod.case sc body
    by simp
qed

lemma draws_at_offset:
  "k < length mean \<Longrightarrow> S = (\<Sum>m\<leftarrow>take k mean. numel m + 1) \<Longrightarrow>
     draws (advance g S) (numel (mean ! k)) = eps_of mean g k
     \<and> tape (advance g S) (pos (advance g S) + numel (mean ! k)) = radius_of mean g k
     \<and> advance (advance g S) (numel (mean ! k) + 1)
         = advance g (\<Sum>m\<leftarrow>take (Suc k) mean. numel m + 1)"
  by (simp add: draws_def eps_of_def eps_start_def radius_of_def take_Suc_conv_app_nth
      add.assoc)

lemma take_Suc_sum:
  "k < length mean \<Longrightarrow>
     (\<Sum>m\<leftarrow>take (Suc k) mean. numel m + 1) = (\<Sum>m\<leftarrow>take k mean. numel m + 1) + (numel (mean ! k) + 1)"
  by (simp add: take_Suc_conv_app_nth)

lemma sample_loop_radial:
  assumes "length mean = n" and "length std = n"
    and "\<And>i. i < n \<Longrightarrow> wf_tensor (mean ! i) \<and> wf_tensor (std ! i) \<and> shape (std ! i) = shape (mean ! i)"
    and "k \<le> n"
  shows "sample_diag_gauss_loop (enumerate k (drop k mean)) std True acc
            (advance g (\<Sum>m\<leftarrow>take k mean. numel m + 1))
         = Inr (acc @ map (\<lambda>i. radial_point (mean ! i) (std ! i) (eps_of mean g i) (radius_of mean g i))
                        [k..<n],
                advance g (\<Sum>m\<leftarrow>mean. numel m + 1))"
  using assms(4)
proof (induction "n - k" arbitrary: k acc)
  case 0
  then show ?case using assms(1) by simp
next
  case (Suc d)
  then have k: "k < n" by simp
  define gk where "gk = advance g (\<Sum>m\<leftarrow>take k mean. numel m + 1)"
  have dr: "enumerate k (drop k mean) = (k, mean ! k) # enumerate (Suc k) (drop (Suc k) mean)"
    using k assms(1) by (simp add: Cons_nth_drop_Suc [symmetric])
  have off: "draws gk (numel (mean ! k)) = eps_of mean g k"
    "tape gk (pos gk + numel (mean ! k)) = radius_of mean g k"
    "advance gk (numel (mean ! k) + 1) = advance g (\<Sum>m\<leftarrow>take (Suc k) mean. numel m + 1)"
    unfolding gk_def using draws_at_offset [of k mean _ g] k assms(1) by blast+
  have up: "[k..<n] = k # [Suc k..<n]"
    using k by (simp add: upt_conv_Cons)
  have "sample_diag_gauss_loop (enumerate k (drop k mean)) std True acc gk
        = sample_diag_gauss_loop (enumerate (Suc k) (drop (Suc k) mean)) std True
            (acc @ [radial_point (mean ! k) (std ! k) (eps_of mean g k) (radius_of mean g k)])
            (advance g (\<Sum>m\<leftarrow>take (Suc k) mean. numel m + 1))"
    unfolding dr using assms(3) [OF k] k assms(2)
    by (subst sample_loop_step) (simp_all only: off)
  also have "\<dots> = Inr ((acc @ [radial_point (mean ! k) (std ! k) (eps_of mean g k) (radius_of mean g k)])
                        @ map (\<lambda>i. radial_point (mean ! i) (std ! i) (eps_of mean g i) (radius_of mean g i))
                        [Suc k..<n],
                advance g (\<Sum>m\<leftarrow>mean. numel m + 1))"
    using Suc.hyps(2) k by (intro Suc.hyps(1)) simp_all
  finally show ?case
    unfolding gk_def up by simp
qed

lemma decode_loop_radial:
  assumes "length mean = n" and "length rho = n"
    and "\<And>i. i < n \<Longrightarrow> wf_tensor (mean ! i) \<and> wf_tensor (rho ! i) \<and> shape (rho ! i) = shape (mean ! i)"
    and "k \<le> n"
  shows "decode_and_sample_loop [k..<n] mean rho le True acc
            (advance g (\<Sum>m\<leftarrow>take k mean. numel m + 1))
         = Inr (acc @ map (\<lambda>i. radial_point (mean ! i) (decode_std le (rho ! i))
                                (eps_of mean g i) (radius_of mean g i))
                        [k..<n],
                advance g (\<Sum>m\<leftarrow>mean. numel m + 1))"
  using assms(4)
proof (induction "n - k" arbitrary: k acc)
  case 0
  then show ?case using assms(1) by simp
next
  case (Suc d)
  then have k: "k < n" by simp
  define gk where "gk = advance g (\<Sum>m\<leftarrow>take k mean. numel m + 1)"
  have off: "draws gk (numel (mean ! k)) = eps_of mean g k"
    "tape gk (pos gk + numel (mean ! k)) = radius_of mean g k"
    "advance gk (numel (mean ! k) + 1) = advance g (\<Sum>m\<leftarrow>take (Suc k) mean. numel m + 1)"
    unfolding gk_def using draws_at_offset [of k mean _ g] k assms(1) by blast+
  have up: "[k..<n] = k # [Suc k..<n]"
    using k by (simp add: upt_conv_Cons)
  have "decode_and_sample_loop [k..<n] mean rho le True acc gk
        = decode_and_sample_loop [Suc k..<n] mean rho le True
            (acc @ [radial_point (mean ! k) (decode_std le (rho ! k))
                      (eps_of mean g k) (radius_of mean g k)])
            (advance g (\<Sum>m\<leftarrow>take (Suc k) mean. numel m + 1))"
    unfolding up using assms(3) [OF k] k assms(1,2)
    by (subst decode_loop_step) (simp_all only: off)
  also have "\<dots> = Inr ((acc @ [radial_point (mean ! k) (decode_std le (rho ! k))
                                 (eps_of mean g k) (radius_of mean g k)])
                        @ map (\<lambda>i. radial_point (mean ! i) (decode_std le (rho ! i))
                                 (eps_of mean g i) (radius_of mean g i))
                        [Suc k..<n],
                advance g (\<Sum>m\<leftarrow>mean. numel m + 1))"
    using Suc.hyps(2) k by (intro Suc.hyps(1)) simp_all
  finally show ?case
    unfolding gk_def up by simp
qed

lemma matching_nth:
  "matching xs ys \<Longrightarrow> i < length xs \<Longrightarrow>
     wf_tensor (xs ! i) \<and> wf_tensor (ys ! i) \<and> shape (ys ! i) = shape (xs ! i)"
  by (simp add: matching_def list_all2_conv_all_nth)

lemma matching_length: "matching xs ys \<Longrightarrow> length ys = length xs"
  by (simp add: matching_def list_all2_lengthD)

subsection \<open>The Monte-Carlo cross-entropy\<close>

lemma ln_gauss_density:
  "0 < sigma \<Longrightarrow>
     ln (gauss_density mu sigma x) = - (x - mu)\<^sup>2 / (2 * sigma\<^sup>2) - ln sigma - ln (sqrt (2 * pi))"
  by (simp add: gauss_density_def ln_div ln_mult)

lemma broadcast_rev_same: "broadcast_rev xs xs = Some xs"
  by (induction xs) auto

lemma broadcast_shapes_same: "broadcast_shapes s s = Some s"
  by (simp add: broadcast_shapes_def broadcast_rev_same)

lemma sample_diag_gauss_radial:
  assumes "matching mean std"
  shows "sample_diag_gauss mean std g True
           = Inr (map (\<lambda>i. radial_point (mean ! i) (std ! i) (eps_of mean g i) (radius_of mean g i))
                    [0..<length mean],
                  advance g (\<Sum>m\<leftarrow>mean. numel m + 1))"
proof -
  have "sample_diag_gauss_loop (enumerate 0 (drop 0 mean)) std True []
            (advance g (\<Sum>m\<leftarrow>take 0 mean. numel m + 1))
         = Inr ([] @ map (\<lambda>i. radial_point (mean ! i) (std ! i) (eps_of mean g i) (radius_of mean g i))
                        [0..<length mean],
                advance g (\<Sum>m\<leftarrow>mean. numel m + 1))"
    using assms by (intro sample_loop_radial) (simp_all add: matching_nth matching_length)
  then show ?thesis
    by (simp add: sample_diag_gauss_def advance_def)
qed

lemma sample_diag_gauss_drawn:
  assumes "matching mean std"
  shows "sample_diag_gauss mean std (advance g (n * draws_per_sample mean)) True
           = Inr (drawn_sample mean std g n, advance g (Suc n * draws_per_sample mean))"
    and "length (drawn_sample mean std g n) = length mean"
    and "i < length mean \<Longrightarrow> wf_tensor (drawn_sample mean std g n ! i)
           \<and> shape (drawn_sample mean std g n ! i) = shape (mean ! i)"
proof -
  have eq: "sample_diag_gauss mean std (advance g (n * draws_per_sample mean)) True
      = Inr (map (\<lambda>i. radial_point (mean ! i) (std ! i)
                        (eps_of mean (advance g (n * draws_per_sample mean)) i)
                        (radius_of mean (advance g (n * draws_per_sample mean)) i))
               [0..<length mean],
             advance g (Suc n * draws_per_sample mean))"
    unfolding sample_diag_gauss_radial [OF assms]
    by (simp add: draws_per_sample_def add.commute)
  then show "sample_diag_gauss mean std (advance g (n * draws_per_sample mean)) True
           = Inr (drawn_sample mean std g n, advance g (Suc n * draws_per_sample mean))"
    by (simp add: drawn_sample_def)
  from eq show "length (drawn_sample mean std g n) = length mean"
    by (simp add: drawn_sample_def)
  assume "i < length mean"
  with eq matching_nth [OF assms, of i]
  show "wf_tensor (drawn_sample mean std g n ! i)
           \<and> shape (drawn_sample mean std g n ! i) = shape (mean ! i)"
    by (simp add: drawn_sample_def radial_point_def wf_tensor_def numel_def)
qed

lemma log_prob_sum:
  assumes "wf_tensor m" and "wf_tensor s" and "wf_tensor x"
    and "shape s = shape m" and "shape x = shape m" and "list_all (\<lambda>x. 0 < x) (data s)"
  shows "lift2 Normal (Inr m) (Inr s) = Inr \<lparr>loc = m, scale = s\<rparr>"
    and "t_sum (log_prob \<lparr>loc = m, scale = s\<rparr> x) = Inr (Tensor [] [log_density m s x])"
proof -
  show "lift2 Normal (Inr m) (Inr s) = Inr \<lparr>loc = m, scale = s\<rparr>"
    using assms(1,2,4,6)
    by (cases m; cases s)
      (simp add: lift2_def Normal_def broadcast_all_def broadcast_shapes_same expand_to_same
        wf_tensor_def)
  define sh where "sh = shape m"
  define n where "n = prod_list sh"
  define mf where "mf = (\<lambda>j. data m ! j)"
  define sf where "sf = (\<lambda>j. data s ! j)"
  define xf where "xf = (\<lambda>j. data x ! j)"
  have idx: "m = Tensor sh (map mf [0..<n])" "s = Tensor sh (map sf [0..<n])"
    "x = Tensor sh (map xf [0..<n])"
    unfolding n_def mf_def sf_def xf_def
    using assms(1-5) by (auto simp: sh_def intro: tensor_index)
  have nm: "numel m = n"
    using assms(1) by (simp add: numel_def wf_tensor_def n_def sh_def)
  have pos: "0 < sf j" if "j < n" for j
  proof -
    have "length (data s) = n"
      using assms(2,4) by (simp add: wf_tensor_def n_def sh_def)
    with that assms(6) show ?thesis
      by (simp add: sf_def list_all_length)
  qed
  have "t_sum (log_prob \<lparr>loc = m, scale = s\<rparr> x)
      = Inr (Tensor [] [\<Sum>j<n. - (xf j - mf j)\<^sup>2 / (2 * (sf j)\<^sup>2) - ln (sf j) - ln (sqrt (2 * pi))])"
    unfolding idx log_prob_def by (simp add: broadcast_shapes_same)
  also have "(\<Sum>j<n. - (xf j - mf j)\<^sup>2 / (2 * (sf j)\<^sup>2) - ln (sf j) - ln (sqrt (2 * pi)))
      = (\<Sum>j<n. ln (gauss_density (mf j) (sf j) (xf j)))"
    by (intro sum.cong refl) (simp add: ln_gauss_density pos)
  finally show "t_sum (log_prob \<lparr>loc = m, scale = s\<rparr> x) = Inr (Tensor [] [log_density m s x])"
    by (simp add: log_density_def nm mf_def sf_def xf_def)
qed

lemma inner_step:
  assumes "i < length mean_b" and "i < length std_b" and "i < length sample"
    and "wf_tensor (mean_b ! i)" and "wf_tensor (std_b ! i)" and "wf_tensor (sample ! i)"
    and "shape (std_b ! i) = shape (mean_b ! i)" and "shape (sample ! i) = shape (mean_b ! i)"
    and "list_all (\<lambda>x. 0 < x) (data (std_b ! i))"
    and "acc = PyNum c \<or> acc = PyTensor (Tensor [] [c])"
  shows "cross_entropy_inner (i # rest) mean_b std_b sample acc
         = cross_entropy_inner rest mean_b std_b sample
             (PyTensor (Tensor [] [c + log_density (mean_b ! i) (std_b ! i) (sample ! i)]))"
proof -
  have p: "py_index mean_b i = Inr (mean_b ! i)" "py_index std_b i = Inr (std_b ! i)"
    "py_index sample i = Inr (sample ! i)"
    using assms(1-3) by (simp_all add: py_index_def)
  have nrm: "lift2 Normal (Inr (mean_b ! i)) (Inr (std_b ! i))
               = Inr \<lparr>loc = mean_b ! i, scale = std_b ! i\<rparr>"
    using assms(4-9) by (intro log_prob_sum(1)) simp_all
  have lp: "t_sum (lift2 log_prob (Inr \<lparr>loc = mean_b ! i, scale = std_b ! i\<rparr>) (Inr (sample ! i)))
              = Inr (Tensor [] [log_density (mean_b ! i) (std_b ! i) (sample ! i)])"
    using log_prob_sum(2) [OF assms(4,5,6,7,8,9)] by (simp add: lift2_def)
  have add: "py_iadd acc (Tensor [] [d]) = Inr (PyTensor (Tensor [] [c + d]))" for d
    using assms(10) by (auto simp: py_iadd_def tensor_map_def lift1_def tensor_binop_def)
  show ?thesis
    unfolding cross_entropy_inner.simps p nrm sum.case lp add by simp
qed

lemma inner_loop:
  assumes "length mean_b = L" and "length std_b = L" and "length sample = L"
    and "\<And>i. i < L \<Longrightarrow> wf_tensor (mean_b ! i) \<and> wf_tensor (std_b ! i) \<and> wf_tensor (sample ! i)
           \<and> shape (std_b ! i) = shape (mean_b ! i) \<and> shape (sample ! i) = shape (mean_b ! i)
           \<and> list_all (\<lambda>x. 0 < x) (data (std_b ! i))"
    and "k \<le> L"
  shows "cross_entropy_inner [k..<L] mean_b std_b sample (PyTensor (Tensor [] [c]))
         = Inr (PyTensor (Tensor []
             [c + (\<Sum>i = k..<L. log_density (mean_b ! i) (std_b ! i) (sample ! i))]))"
  using assms(5)
proof (induction "L - k" arbitrary: k c)
  case 0
  then show ?case by simp
next
  case (Suc d)
  then have k: "k < L" by simp
  have up: "[k..<L] = k # [Suc k..<L]"
    using k by (simp add: upt_conv_Cons)
  have "cross_entropy_inner [k..<L] mean_b std_b sample (PyTensor (Tensor [] [c]))
      = cross_entropy_inner [Suc k..<L] mean_b std_b sample
          (PyTensor (Tensor [] [c + log_density (mean_b ! k) (std_b ! k) (sample ! k)]))"
    unfolding up using assms(4) [OF k] k assms(1-3) by (intro inner_step) simp_all
  also have "\<dots> = Inr (PyTensor (Tensor []
             [c + log_density (mean_b ! k) (std_b ! k) (sample ! k)
              + (\<Sum>i = Suc k..<L. log_density (mean_b ! i) (std_b ! i) (sample ! i))]))"
    using Suc.hyps(2) k by (intro Suc.hyps(1)) simp_all
  finally show ?case
    using k by (simp add: sum.atLeast_Suc_lessThan add.assoc)
qed

lemma inner_loop_first:
  assumes "length mean_b = L" and "length std_b = L" and "length sample = L"
    and "\<And>i. i < L \<Longrightarrow> wf_tensor (mean_b ! i) \<and> wf_tensor (std_b ! i) \<and> wf_tensor (sample ! i)
           \<and> shape (std_b ! i) = shape (mean_b ! i) \<and> shape (sample ! i) = shape (mean_b ! i)
           \<and> list_all (\<lambda>x. 0 < x) (data (std_b ! i))"
    and "0 < L" and "acc = PyNum c \<or> acc = PyTensor (Tensor [] [c])"
  shows "cross_entropy_inner [0..<L] mean_b std_b sample acc
         = Inr (PyTensor (Tensor []
             [c + (\<Sum>i<L. log_density (mean_b ! i) (std_b ! i) (sample ! i))]))"
proof -
  have up: "[0..<L] = 0 # [Suc 0..<L]"
    using assms(5) by (simp add: upt_conv_Cons)
  have "cross_entropy_inner [0..<L] mean_b std_b sample acc
      = cross_entropy_inner [Suc 0..<L] mean_b std_b sample
          (PyTensor (Tensor [] [c + log_density (mean_b ! 0) (std_b ! 0) (sample ! 0)]))"
    unfolding up using assms(4) [OF assms(5)] assms(1-3,5,6) by (intro inner_step) simp_all
  also have "\<dots> = Inr (PyTensor (Tensor []
             [c + log_density (mean_b ! 0) (std_b ! 0) (sample ! 0)
              + (\<Sum>i = Suc 0..<L. log_density (mean_b ! i) (std_b ! i) (sample ! i))]))"
    using assms(1-5) by (intro inner_loop) simp_all
  finally show ?thesis
    using assms(5) by (simp add: sum.atLeast_Suc_lessThan add.assoc atLeast0LessThan [symmetric])
qed

lemma outer_step:
  assumes "matching mean_a std_a" and "matching mean_a mean_b" and "matching mean_a std_b"
    and "positive std_b" and "mean_a \<noteq> []"
    and "acc = PyNum c \<or> acc = PyTensor (Tensor [] [c])"
  shows "cross_entropy_outer (Suc d) mean_a std_a mean_b std_b acc
            (advance g (n * draws_per_sample mean_a))
         = cross_entropy_outer d mean_a std_a mean_b std_b
            (PyTensor (Tensor []
               [c + (\<Sum>i<length mean_b.
                       log_density (mean_b ! i) (std_b ! i) (drawn_sample mean_a std_a g n ! i))]))
            (advance g (Suc n * draws_per_sample mean_a))"
proof -
  define L where "L = length mean_a"
  define sample where "sample = drawn_sample mean_a std_a g n"
  have len: "length mean_b = L" "length std_b = L" "length sample = L"
    using assms(2,3) sample_diag_gauss_drawn(2) [OF assms(1)]
    by (simp_all add: L_def sample_def matching_length)
  have L: "0 < L" using assms(5) by (simp add: L_def)
  have cond: "wf_tensor (mean_b ! i) \<and> wf_tensor (std_b ! i) \<and> wf_tensor (sample ! i)
           \<and> shape (std_b ! i) = shape (mean_b ! i) \<and> shape (sample ! i) = shape (mean_b ! i)
           \<and> list_all (\<lambda>x. 0 < x) (data (std_b ! i))" if "i < L" for i
  proof -
    have i: "i < length mean_a" using that by (simp add: L_def)
    have "list_all (\<lambda>x. 0 < x) (data (std_b ! i))"
      using assms(4) that len(2) by (simp add: positive_def list_all_length)
    then show ?thesis
      using matching_nth [OF assms(2) i] matching_nth [OF assms(3) i]
        sample_diag_gauss_drawn(3) [OF assms(1) i, of g n]
      by (simp add: sample_def)
  qed
  have inner: "cross_entropy_inner [0..<L] mean_b std_b sample acc
         = Inr (PyTensor (Tensor []
             [c + (\<Sum>i<L. log_density (mean_b ! i) (std_b ! i) (sample ! i))]))"
    using len cond L assms(6) by (intro inner_loop_first) simp_all
  show ?thesis
    unfolding cross_entropy_outer.simps sample_diag_gauss_drawn(1) [OF assms(1)]
      sample_def [symmetric] len(1)
    by (simp add: inner)
qed

lemma outer_loop:
  assumes "matching mean_a std_a" and "matching mean_a mean_b" and "matching mean_a std_b"
    and "positive std_b" and "mean_a \<noteq> []"
    and "acc = PyNum c \<or> acc = PyTensor (Tensor [] [c])"
  shows "cross_entropy_outer (Suc d) mean_a std_a mean_b std_b acc
            (advance g (n * draws_per_sample mean_a))
         = Inr (PyTensor (Tensor []
               [c + (\<Sum>k = n..<n + Suc d. \<Sum>i<length mean_b.
                       log_density (mean_b ! i) (std_b ! i) (drawn_sample mean_a std_a g k ! i))]),
                advance g ((n + Suc d) * draws_per_sample mean_a))"
  using assms(6)
proof (induction d arbitrary: n acc c)
  case 0
  show ?case
    unfolding outer_step [OF assms(1-5) 0] by simp
next
  case (Suc d)
  define c' where "c' = c + (\<Sum>i<length mean_b.
      log_density (mean_b ! i) (std_b ! i) (drawn_sample mean_a std_a g n ! i))"
  have "cross_entropy_outer (Suc (Suc d)) mean_a std_a mean_b std_b acc
            (advance g (n * draws_per_sample mean_a))
      = cross_entropy_outer (Suc d) mean_a std_a mean_b std_b (PyTensor (Tensor [] [c']))
            (advance g (Suc n * draws_per_sample mean_a))"
    unfolding c'_def by (rule outer_step [OF assms(1-5) Suc.prems])
  also have "\<dots> = Inr (PyTensor (Tensor []
               [c' + (\<Sum>k = Suc n..<Suc n + Suc d. \<Sum>i<length mean_b.
                       log_density (mean_b ! i) (std_b ! i) (drawn_sample mean_a std_a g k ! i))]),
                advance g ((Suc n + Suc d) * draws_per_sample mean_a))"
    by (rule Suc.IH) simp
  finally show ?case
    unfolding c'_def by (simp add: sum.atLeast_Suc_lessThan add.assoc)
qed

subsection \<open>Sampling from hypernetwork outputs\<close>

lemma hnet_step:
  assumes "i < length mu" and "i < length logvar" and "wf_tensor (mu ! i)"
    and "wf_tensor (logvar ! i)" and "shape (logvar ! i) = shape (mu ! i)"
  shows "sample_diag_gaus_from_hnet_loop (i # rest) mu logvar acc g
         = (case t_add (Inr (mu ! i))
                  (t_mul (Inr (Tensor (shape (mu ! i)) (draws g (numel (mu ! i)))))
                         (Inr (tensor_map (\<lambda>x. exp (0.5 * x)) (logvar ! i)))) of
              Inl e \<Rightarrow> Inl e
            | Inr s \<Rightarrow> sample_diag_gaus_from_hnet_loop rest mu logvar (acc @ [s])
                        (advance g (numel (mu ! i))))"
proof -
  have p: "py_index mu i = Inr (mu ! i)" "py_index logvar i = Inr (logvar ! i)"
    using assms(1,2) by (simp_all add: py_index_def)
  have "wf_tensor (tensor_map (\<lambda>x. exp (0.5 * x)) (logvar ! i))"
    "shape (tensor_map (\<lambda>x. exp (0.5 * x)) (logvar ! i)) = shape (mu ! i)"
    "list_all (\<lambda>x. 0 < x) (data (tensor_map (\<lambda>x. exp (0.5 * x)) (logvar ! i)))"
    using assms(4,5) by (simp_all add: tensor_map_def wf_tensor_def list_all_length)
  then have nrm: "lift2 Normal (Inr (mu ! i)) (Inr (tensor_map (\<lambda>x. exp (0.5 * x)) (logvar ! i)))
      = Inr \<lparr>loc = mu ! i, scale = tensor_map (\<lambda>x. exp (0.5 * x)) (logvar ! i)\<rparr>"
    using assms(3) by (intro log_prob_sum(1)) simp_all
  show ?thesis
    unfolding sample_diag_gaus_from_hnet_loop.simps p lift1_def sum.case nrm rsample_def
      normal_zeros_like
    by (simp split: sum.splits)
qed

lemma sample_loop_step_gauss:
  "sample_diag_gauss_loop ((i, m) # rest) std False acc g
     = (case t_add (Inr m) (t_mul (Inr (Tensor (shape m) (draws g (numel m)))) (py_index std i)) of
          Inl e \<Rightarrow> Inl e
        | Inr s \<Rightarrow> sample_diag_gauss_loop rest std False (acc @ [s]) (advance g (numel m)))"
  by (simp add: normal_zeros_like)

lemma hnet_loop_eq:
  assumes "length mu = n" and "length logvar = n"
    and "\<And>i. i < n \<Longrightarrow> wf_tensor (mu ! i) \<and> wf_tensor (logvar ! i)
           \<and> shape (logvar ! i) = shape (mu ! i)"
    and "k \<le> n"
  shows "sample_diag_gaus_from_hnet_loop [k..<n] mu logvar acc g
         = sample_diag_gauss_loop (enumerate k (drop k mu))
             (map (tensor_map (\<lambda>x. exp (0.5 * x))) logvar) False acc g"
  using assms(4)
proof (induction "n - k" arbitrary: k acc g)
  case 0
  then show ?case using assms(1) by simp
next
  case (Suc d)
  then have k: "k < n" by simp
  have up: "[k..<n] = k # [Suc k..<n]"
    using k by (simp add: upt_conv_Cons)
  have dr: "enumerate k (drop k mu) = (k, mu ! k) # enumerate (Suc k) (drop (Suc k) mu)"
    using k assms(1) by (simp add: Cons_nth_drop_Suc [symmetric])
  have ix: "py_index (map (tensor_map (\<lambda>x. exp (0.5 * x))) logvar) k
              = Inr (tensor_map (\<lambda>x. exp (0.5 * x)) (logvar ! k))"
    using k assms(2) by (simp add: py_index_def)
  have IH: "sample_diag_gaus_from_hnet_loop [Suc k..<n] mu logvar acc' g'
         = sample_diag_gauss_loop (enumerate (Suc k) (drop (Suc k) mu))
             (map (tensor_map (\<lambda>x. exp (0.5 * x))) logvar) False acc' g'" for acc' g'
    using Suc.hyps(2) k by (intro Suc.hyps(1)) simp_all
  show ?case
    unfolding up dr sample_loop_step_gauss ix
    using assms(3) [OF k] k assms(1,2)
    by (subst hnet_step) (simp_all add: IH cong: sum.case_cong)
qed

subsection \<open>The bound for Gaussian mixtures\<close>

lemma take_drop_map_upt:
  "i * I + I \<le> n \<Longrightarrow> take I (drop (i * I) (map f [0..<n])) = map (\<lambda>q. f (i * I + q)) [0..<I]"
  by (simp add: list_eq_iff_nth_eq)

lemma softmax0_select:
  assumes "wf_tensor c" and "shape c = n # cs"
  obtains sc where "softmax c 0 = Inr sc"
    and "\<And>i. i < n \<Longrightarrow>
           select0 sc i = Inr (Tensor cs (map (\<lambda>q. mix_weight c i q) [0..<prod_list cs]))"
proof -
  define I where "I = prod_list cs"
  define sc where "sc = Tensor (n # cs)
      (map (\<lambda>j. exp (data c ! j) / (\<Sum>m\<leftarrow>[0..<n]. exp (data c ! (j div (n * I) * (n * I) + m * I + j mod I))))
         [0..<n * I])"
  have len: "length (data c) = n * I"
    using assms(1,2) by (simp add: wf_tensor_def I_def)
  have sm: "softmax c 0 = Inr sc"
    using assms(2) len by (simp add: softmax_def I_def Let_def sc_def)
  have "select0 sc i = Inr (Tensor cs (map (\<lambda>q. mix_weight c i q) [0..<prod_list cs]))"
    if i: "i < n" for i
  proof -
    have le: "i * I + I \<le> n * I"
      using i by (metis Suc_leI mult_Suc mult_le_mono1 add.commute)
    have "exp (data c ! (i * I + q))
          / (\<Sum>m\<leftarrow>[0..<n]. exp (data c ! ((i * I + q) div (n * I) * (n * I) + m * I + (i * I + q) mod I)))
        = mix_weight c i q" if "q < I" for q
    proof -
      have "i * I + q < n * I" using that le by simp
      then have "(i * I + q) div (n * I) = 0" by simp
      moreover have "(i * I + q) mod I = q" using that by simp
      ultimately show ?thesis
        using assms(2)
        by (simp add: mix_weight_def I_def interv_sum_list_conv_sum_set_nat atLeast0LessThan)
    qed
    then have "map (\<lambda>q. exp (data c ! (i * I + q))
          / (\<Sum>m\<leftarrow>[0..<n]. exp (data c ! ((i * I + q) div (n * I) * (n * I) + m * I + (i * I + q) mod I))))
          [0..<I] = map (\<lambda>q. mix_weight c i q) [0..<I]"
      by simp
    then show ?thesis
      unfolding sc_def using i le
      by (simp add: select0_def I_def [symmetric] take_drop_map_upt)
  qed
  with sm show ?thesis by (rule that)
qed

lemma map2_replicate_left:
  "length d = n \<Longrightarrow> map2 f (replicate n y) d = map (\<lambda>x. f y x) d"
  by (induction d arbitrary: n) auto

lemma broadcast_shapes_scalar_left: "broadcast_shapes [] s = Some s"
  by (simp add: broadcast_shapes_def)

lemma tensor_binop_scalar_left:
  assumes "wf_tensor a"
  shows "tensor_binop f (Tensor [] [y]) a = Inr (Tensor (shape a) (map (\<lambda>x. f y x) (data a)))"
proof (cases "shape a = []")
  case True
  with assms obtain x where "data a = [x]"
    by (cases "data a") (auto simp: wf_tensor_def)
  with True show ?thesis by (simp add: tensor_binop_def)
next
  case False
  then have "[] \<noteq> shape a" by simp
  with assms show ?thesis
    by (simp add: tensor_binop_def broadcast_shapes_scalar_left expand_to_same expand_to_scalar
        wf_tensor_def map2_replicate_left)
qed

lemma kl_gauss_elementwise:
  assumes "wf_tensor mean_a" and "wf_tensor logvar_a" and "wf_tensor mean_b"
    and "wf_tensor logvar_b"
    and "shape logvar_a = shape mean_a" and "shape mean_b = shape mean_a"
    and "shape logvar_b = shape mean_a"
  shows "kl_gauss mean_a logvar_a mean_b logvar_b
           = Inr (Tensor (shape mean_a)
               (map (\<lambda>j. gauss_kl (data mean_a ! j) (data logvar_a ! j)
                                  (data mean_b ! j) (data logvar_b ! j))
                  [0..<prod_list (shape mean_a)]))"
proof -
  define s where "s = shape mean_a"
  define n where "n = prod_list s"
  define ma where "ma = (\<lambda>j. data mean_a ! j)"
  define la where "la = (\<lambda>j. data logvar_a ! j)"
  define mb where "mb = (\<lambda>j. data mean_b ! j)"
  define lb where "lb = (\<lambda>j. data logvar_b ! j)"
  have idx:
    "mean_a = Tensor s (map ma [0..<n])" "logvar_a = Tensor s (map la [0..<n])"
    "mean_b = Tensor s (map mb [0..<n])" "logvar_b = Tensor s (map lb [0..<n])"
    unfolding n_def ma_def la_def mb_def lb_def
    using assms by (auto simp: s_def intro: tensor_index)
  have pt: "0.5 * (y - x) + 0.5 * (exp x + (u - v)\<^sup>2) / exp y - 0.5 = gauss_kl u x v y"
    for x y u v :: real
    by (simp add: gauss_kl_def exp_diff exp_minus field_simps)
  have "kl_gauss mean_a logvar_a mean_b logvar_b
      = Inr (Tensor s (map (\<lambda>j. 0.5 * (lb j - la j)
            + 0.5 * (exp (la j) + (ma j - mb j)\<^sup>2) / exp (lb j) - 0.5) [0..<n]))"
    unfolding idx kl_gauss_def by simp
  then show ?thesis
    unfolding s_def [symmetric] n_def [symmetric] ma_def [symmetric] la_def [symmetric]
      mb_def [symmetric] lb_def [symmetric]
    by (simp only: pt)
qed

lemma upperbound_step:
  assumes sel: "select0 sa i = Inr (Tensor cs (map (\<lambda>q. mix_weight coef_a i q) [0..<prod_list cs]))"
      "select0 sb i = Inr (Tensor cs (map (\<lambda>q. mix_weight coef_b i q) [0..<prod_list cs]))"
    and cs: "tl (shape coef_a) = cs"
    and i: "i < length lma" "i < length lla" "i < length lmb" "i < length llb"
    and wf: "wf_tensor (lma ! i)" "wf_tensor (lla ! i)" "wf_tensor (lmb ! i)" "wf_tensor (llb ! i)"
    and sh: "shape (lla ! i) = shape (lma ! i)" "shape (lmb ! i) = shape (lma ! i)"
      "shape (llb ! i) = shape (lma ! i)"
    and bc: "cs = [] \<or> cs = shape (lma ! i)"
    and acc: "acc = PyNum c \<or> acc = PyTensor (Tensor [] [c])"
  shows "upperbound_loop (i # rest) coef lma lla lmb llb sa sb acc
         = upperbound_loop rest coef lma lla lmb llb sa sb
             (PyTensor (Tensor []
                [c + mixture_bound_term coef_a coef_b (lma ! i) (lla ! i) (lmb ! i) (llb ! i) i]))"
proof -
  define I where "I = prod_list cs"
  define P where "P = prod_list (shape (lma ! i))"
  define klg where "klg = (\<lambda>p. gauss_kl (data (lma ! i) ! p) (data (lla ! i) ! p)
                                       (data (lmb ! i) ! p) (data (llb ! i) ! p))"
  have p: "py_index lma i = Inr (lma ! i)" "py_index lla i = Inr (lla ! i)"
    "py_index lmb i = Inr (lmb ! i)" "py_index llb i = Inr (llb ! i)"
    using i by (simp_all add: py_index_def)
  have t1: "t_sum (t_mul (select0 sa i) (t_sub (t_map ln (select0 sa i)) (t_map ln (select0 sb i))))
      = Inr (Tensor [] [\<Sum>q<I. mix_weight coef_a i q
                              * (ln (mix_weight coef_a i q) - ln (mix_weight coef_b i q))])"
    unfolding sel I_def by simp
  have kg: "lift4 kl_gauss (Inr (lma ! i)) (Inr (lla ! i)) (Inr (lmb ! i)) (Inr (llb ! i))
      = Inr (Tensor (shape (lma ! i)) (map klg [0..<P]))"
    unfolding klg_def P_def using kl_gauss_elementwise [OF wf sh] by (simp add: lift4_def)
  have t2: "t_sum (t_mul (Inr (Tensor cs (map (\<lambda>q. mix_weight coef_a i q) [0..<I])))
                         (Inr (Tensor (shape (lma ! i)) (map klg [0..<P]))))
      = Inr (Tensor [] [\<Sum>p<P. mix_weight coef_a i (p mod I) * klg p])"
  proof (cases "cs = shape (lma ! i)")
    case True
    then have "I = P" by (simp add: I_def P_def)
    then show ?thesis using True by simp
  next
    case False
    with bc have e: "cs = []" by simp
    then have I1: "I = 1" by (simp add: I_def)
    have w: "wf_tensor (Tensor (shape (lma ! i)) (map klg [0..<P]))"
      by (simp add: wf_tensor_def P_def)
    show ?thesis
      unfolding e I1 t_mul_def using tensor_binop_scalar_left [OF w, of "(*)"]
      by (simp add: lift2_def t_sum_def lift1_def scalar_tensor_def comp_def
          interv_sum_list_conv_sum_set_nat atLeast0LessThan)
  qed
  have add: "py_iadd a (Tensor [] [d]) = Inr (PyTensor (Tensor [] [x + d]))"
    if "a = PyNum x \<or> a = PyTensor (Tensor [] [x])" for a x d
    using that by (auto simp: py_iadd_def tensor_map_def lift1_def tensor_binop_def)
  have nm: "numel (lma ! i) = P"
    using wf(1) by (simp add: numel_def wf_tensor_def P_def)
  have mbt: "mixture_bound_term coef_a coef_b (lma ! i) (lla ! i) (lmb ! i) (llb ! i) i
      = (\<Sum>q<I. mix_weight coef_a i q * (ln (mix_weight coef_a i q) - ln (mix_weight coef_b i q)))
        + (\<Sum>p<P. mix_weight coef_a i (p mod I) * klg p)"
    by (simp add: mixture_bound_term_def cs I_def nm klg_def)
  show ?thesis
    unfolding upperbound_loop.simps t1 sum.case add [OF acc] p kg
    unfolding sel(1) I_def [symmetric] t2 sum.case
    by (simp add: add mbt add.assoc)
qed

lemma upperbound_loop_sum:
  assumes "\<And>i. i < n \<Longrightarrow>
        select0 sa i = Inr (Tensor cs (map (\<lambda>q. mix_weight coef_a i q) [0..<prod_list cs]))
      \<and> select0 sb i = Inr (Tensor cs (map (\<lambda>q. mix_weight coef_b i q) [0..<prod_list cs]))"
    and "tl (shape coef_a) = cs"
    and "length lma = n" and "length lla = n" and "length lmb = n" and "length llb = n"
    and "\<And>i. i < n \<Longrightarrow>
        wf_tensor (lma ! i) \<and> wf_tensor (lla ! i) \<and> wf_tensor (lmb ! i) \<and> wf_tensor (llb ! i)
      \<and> shape (lla ! i) = shape (lma ! i) \<and> shape (lmb ! i) = shape (lma ! i)
      \<and> shape (llb ! i) = shape (lma ! i) \<and> (cs = [] \<or> cs = shape (lma ! i))"
    and "k < n" and "acc = PyNum c \<or> acc = PyTensor (Tensor [] [c])"
  shows "upperbound_loop [k..<n] coef lma lla lmb llb sa sb acc
         = Inr (PyTensor (Tensor []
             [c + (\<Sum>i = k..<n.
                 mixture_bound_term coef_a coef_b (lma ! i) (lla ! i) (lmb ! i) (llb ! i) i)]))"
  using assms(8,9)
proof (induction "n - k" arbitrary: k acc c)
  case 0
  then show ?case by simp
next
  case (Suc d)
  have k: "k < n" by fact
  define c' where
    "c' = c + mixture_bound_term coef_a coef_b (lma ! k) (lla ! k) (lmb ! k) (llb ! k) k"
  have up: "[k..<n] = k # [Suc k..<n]"
    using k by (simp add: upt_conv_Cons)
  have st: "upperbound_loop [k..<n] coef lma lla lmb llb sa sb acc
      = upperbound_loop [Suc k..<n] coef lma lla lmb llb sa sb (PyTensor (Tensor [] [c']))"
    unfolding up c'_def
    using assms(1) [OF k] assms(7) [OF k] k assms(2-6) Suc.prems(2)
    by (intro upperbound_step) auto
  show ?case
  proof (cases "Suc k < n")
    case True
    have "upperbound_loop [Suc k..<n] coef lma lla lmb llb sa sb (PyTensor (Tensor [] [c']))
        = Inr (PyTensor (Tensor []
             [c' + (\<Sum>i = Suc k..<n.
                 mixture_bound_term coef_a coef_b (lma ! i) (lla ! i) (lmb ! i) (llb ! i) i)]))"
      using Suc.hyps(2) True by (intro Suc.hyps(1)) simp_all
    then show ?thesis
      unfolding st c'_def using k by (simp add: sum.atLeast_Suc_lessThan add.assoc)
  next
    case False
    then have "Suc k = n" using k by simp
    then show ?thesis
      unfolding st c'_def using k by (simp add: sum.atLeast_Suc_lessThan)
  qed
qed

subsection \<open>The first iteration of the Gumbel-softmax loop\<close>

lemma tile_data_ones:
  "length d = prod_list ss \<Longrightarrow> tile_data ss (replicate (length ss) 1) d = d"
proof (induction ss arbitrary: d)
  case Nil
  then show ?case by simp
next
  case (Cons t ts)
  define p where "p = prod_list ts"
  have len: "length d = t * p" using Cons.prems by (simp add: p_def)
  have "tile_data ts (replicate (length ts) 1) (take p (drop (k * p) d)) = take p (drop (k * p) d)"
    if "k < t" for k
  proof (rule Cons.IH)
    have "k * p + p \<le> t * p"
      using that by (metis Suc_leI mult_Suc mult_le_mono1 add.commute)
    then show "length (take p (drop (k * p) d)) = prod_list ts"
      using len by (simp add: p_def)
  qed
  then have m: "map (\<lambda>k. tile_data ts (replicate (length ts) 1) (take p (drop (k * p) d))) [0..<t]
             = map (\<lambda>k. take p (drop (k * p) d)) [0..<t]"
    by simp
  have "tile_data (t # ts) (replicate (length (t # ts)) 1) d
          = concat (map (\<lambda>k. tile_data ts (replicate (length ts) 1) (take p (drop (k * p) d))) [0..<t])"
    by (simp add: p_def)
  also have "\<dots> = take (t * p) d"
    unfolding m using len by (simp add: concat_chunks_take)
  finally show ?case using len by simp
qed

lemma concat_replicate_index:
  "concat (replicate K xs) = map (\<lambda>j. xs ! (j mod length xs)) [0..<K * length xs]"
proof (induction K)
  case 0
  then show ?case by simp
next
  case (Suc K)
  define n where "n = length xs"
  have a: "[0..<Suc K * n] = [0..<K * n] @ [K * n..<K * n + n]"
  proof -
    have "[0..<K * n + n] = [0..<K * n] @ [K * n..<K * n + n]"
      by (rule upt_add_eq_append) simp
    moreover have "Suc K * n = K * n + n" by simp
    ultimately show ?thesis by (simp only:)
  qed
  have b: "map (\<lambda>j. xs ! (j mod n)) [K * n..<K * n + n] = xs"
  proof (rule nth_equalityI)
    show "length (map (\<lambda>j. xs ! (j mod n)) [K * n..<K * n + n]) = length xs"
      by (simp add: n_def)
    fix i
    assume "i < length (map (\<lambda>j. xs ! (j mod n)) [K * n..<K * n + n])"
    then have i: "i < n" by simp
    then have "(K * n + i) mod n = i" by simp
    with i show "map (\<lambda>j. xs ! (j mod n)) [K * n..<K * n + n] ! i = xs ! i"
      by simp
  qed
  have "concat (replicate (Suc K) xs) = concat (replicate K xs @ [xs])"
    by (simp only: replicate_append_same replicate_Suc)
  also have "\<dots> = concat (replicate K xs) @ xs"
    by simp
  also have "\<dots> = map (\<lambda>j. xs ! (j mod n)) [0..<K * n] @ xs"
    using Suc.IH by (simp only: n_def)
  also have "\<dots> = map (\<lambda>j. xs ! (j mod n)) [0..<Suc K * n]"
    unfolding a map_append b ..
  finally show ?case by (simp only: n_def)
qed

lemma tile_4d:
  assumes "length d = M * (a * b)"
  shows "tile (Tensor [1, M, a, b] d) [K, 1, 1, 1]
           = Tensor [K, M, a, b] (map (\<lambda>j. d ! (j mod (M * (a * b)))) [0..<K * (M * (a * b))])"
proof -
  have r: "replicate (length [M, a, b]) (1::nat) = [1, 1, 1]"
    by (simp add: numeral_3_eq_3)
  have "tile_data [M, a, b] (replicate (length [M, a, b]) 1) d = d"
    using assms by (intro tile_data_ones) simp
  then have one: "tile_data [M, a, b] [1, 1, 1] d = d"
    by (simp only: r)
  have u: "[0..<1] = [0::nat]" by simp
  have td: "take (prod_list [M, a, b]) (drop (0 * prod_list [M, a, b]) d) = d"
    using assms by simp
  have "tile_data [1, M, a, b] [K, 1, 1, 1] d
          = concat (replicate K (concat (map (\<lambda>i. tile_data [M, a, b] [1, 1, 1]
                (take (prod_list [M, a, b]) (drop (i * prod_list [M, a, b]) d))) [0..<1])))"
    by (rule tile_data.simps(1))
  also have "\<dots> = concat (replicate K d)"
    unfolding u list.map td one by simp
  also have "\<dots> = map (\<lambda>j. d ! (j mod (M * (a * b)))) [0..<K * (M * (a * b))]"
    unfolding concat_replicate_index assms ..
  finally have t: "tile_data [1, M, a, b] [K, 1, 1, 1] d
      = map (\<lambda>j. d ! (j mod (M * (a * b)))) [0..<K * (M * (a * b))]" .
  have "tile (Tensor [1, M, a, b] d) [K, 1, 1, 1]
      = Tensor (map2 (*) [1, M, a, b] [K, 1, 1, 1]) (tile_data [1, M, a, b] [K, 1, 1, 1] d)"
    by (simp add: tile_def)
  then show ?thesis
    unfolding t by simp
qed

lemma draws_index: "draws g N = map (\<lambda>j. tape g (pos g + j)) [0..<N]"
  by (simp add: draws_def list_eq_iff_nth_eq)

lemma softmax_dim1_index:
  assumes "N = K * (M * (a * b))"
  shows "softmax (Tensor [K, M, a, b] (map f [0..<N])) 1
           = Inr (Tensor [K, M, a, b]
               (map (\<lambda>j. exp (f j)
                      / (\<Sum>m<M. exp (f (j div (M * (a * b)) * (M * (a * b)) + m * (a * b)
                                          + j mod (a * b)))))
                  [0..<N]))"
proof -
  define I where "I = a * b"
  have inner: "map f [0..<N] ! (j div (M * I) * (M * I) + m * I + j mod I)
                 = f (j div (M * I) * (M * I) + m * I + j mod I)"
    if "j < N" and "m < M" for j m
  proof -
    have "N \<noteq> 0" using that(1) by simp
    then have I: "0 < I" and MI: "0 < M * I"
      using assms by (auto simp: I_def)
    have "j < K * (M * I)" using that(1) assms by (simp add: I_def)
    then have o: "j div (M * I) < K"
      by (rule less_mult_imp_div_less)
    have "m * I + j mod I < M * I"
    proof -
      have "m * I + j mod I < m * I + I" using I by simp
      also have "\<dots> = Suc m * I" by simp
      also have "\<dots> \<le> M * I" using that(2) by (intro mult_le_mono1) simp
      finally show ?thesis .
    qed
    then have "j div (M * I) * (M * I) + m * I + j mod I < j div (M * I) * (M * I) + M * I"
      by simp
    also have "\<dots> = Suc (j div (M * I)) * (M * I)" by simp
    also have "\<dots> \<le> K * (M * I)" using o by (intro mult_le_mono1) simp
    finally show ?thesis using assms by (simp add: I_def)
  qed
  have "(\<Sum>m\<leftarrow>[0..<M]. exp (map f [0..<N] ! (j div (M * I) * (M * I) + m * I + j mod I)))
          = (\<Sum>m<M. exp (f (j div (M * I) * (M * I) + m * I + j mod I)))" if "j < N" for j
    using inner [OF that]
    by (simp add: interv_sum_list_conv_sum_set_nat atLeast0LessThan)
  then have "map (\<lambda>j. exp (map f [0..<N] ! j)
                 / (\<Sum>m\<leftarrow>[0..<M]. exp (map f [0..<N] ! (j div (M * I) * (M * I) + m * I + j mod I))))
               [0..<N]
           = map (\<lambda>j. exp (f j)
                 / (\<Sum>m<M. exp (f (j div (M * I) * (M * I) + m * I + j mod I)))) [0..<N]"
    by simp
  then show ?thesis
    by (simp add: softmax_def Let_def I_def)
qed

lemma softmax_tiled:
  assumes "N = K * (M * (a * b))" and "hd (shape coef) = M"
    and "prod_list (tl (shape coef)) = a * b"
  shows "softmax (Tensor [K, M, a, b] (map (\<lambda>j. data coef ! (j mod (M * (a * b)))) [0..<N])) 1
           = Inr (Tensor [K, M, a, b]
               (map (\<lambda>j. mix_weight coef (j mod (M * (a * b)) div (a * b)) (j mod (a * b))) [0..<N]))"
proof -
  define I where "I = a * b"
  define c where "c = (\<lambda>j. data coef ! j)"
  have el: "exp (c (j mod (M * I)))
              / (\<Sum>m<M. exp (c ((j div (M * I) * (M * I) + m * I + j mod I) mod (M * I))))
            = mix_weight coef (j mod (M * I) div I) (j mod I)" if "j < N" for j
  proof -
    have "N \<noteq> 0" using that by simp
    then have I: "0 < I" using assms(1) by (auto simp: I_def)
    have inner: "(j div (M * I) * (M * I) + m * I + j mod I) mod (M * I) = m * I + j mod I"
      if "m < M" for m
    proof -
      have "m * I + j mod I < m * I + I" using I by simp
      also have "\<dots> = Suc m * I" by simp
      also have "\<dots> \<le> M * I" using that by (intro mult_le_mono1) simp
      finally have lt: "m * I + j mod I < M * I" .
      have "(j div (M * I) * (M * I) + m * I + j mod I) mod (M * I)
              = (m * I + j mod I + j div (M * I) * (M * I)) mod (M * I)"
        by (simp only: ac_simps)
      also have "\<dots> = (m * I + j mod I) mod (M * I)"
        by (rule mod_mult_self1)
      also have "\<dots> = m * I + j mod I"
        using lt by (rule mod_less)
      finally show ?thesis .
    qed
    have "j mod (M * I) mod I = j mod I"
      by (rule mod_mod_cancel) simp
    then have top: "j mod (M * I) div I * I + j mod I = j mod (M * I)"
      by (metis div_mult_mod_eq)
    have "(\<Sum>m<M. exp (c ((j div (M * I) * (M * I) + m * I + j mod I) mod (M * I))))
            = (\<Sum>m<M. exp (c (m * I + j mod I)))"
      by (intro sum.cong refl) (simp add: inner)
    then show ?thesis
      unfolding mix_weight_def assms(2,3) I_def [symmetric] c_def [symmetric] top
      by (simp only:)
  qed
  have "softmax (Tensor [K, M, a, b] (map (\<lambda>j. c (j mod (M * I))) [0..<N])) 1
      = Inr (Tensor [K, M, a, b]
          (map (\<lambda>j. exp (c (j mod (M * I)))
                 / (\<Sum>m<M. exp (c ((j div (M * I) * (M * I) + m * I + j mod I) mod (M * I)))))
             [0..<N]))"
    unfolding I_def by (rule softmax_dim1_index [OF assms(1)])
  also have "(map (\<lambda>j. exp (c (j mod (M * I)))
                 / (\<Sum>m<M. exp (c ((j div (M * I) * (M * I) + m * I + j mod I) mod (M * I)))))
             [0..<N])
      = map (\<lambda>j. mix_weight coef (j mod (M * I) div I) (j mod I)) [0..<N]"
    by (rule map_cong [OF refl]) (simp add: el)
  finally show ?thesis
    unfolding I_def c_def .
qed

lemma gumbel_sample_index:
  "t_map uminus (t_map ln (t_map (\<lambda>x. x + 1 / 10 ^ 20)
      (t_map uminus (t_map ln (t_map (\<lambda>x. x + 1 / 10 ^ 20) (Inr (Tensor s (map u js))))))))
     = Inr (Tensor s (map (\<lambda>j. gumbel_noise (u j)) js))"
  by (simp only: t_map_index gumbel_noise_def)

lemma coef_expand_tiled:
  assumes "wf_tensor coef"
    and "shape coef = (if is_bias then [M, d_out] else [M, d_in, d_out])"
    and "a = (if is_bias then 1 else d_in)"
  shows "(if \<not> is_bias then lift1 (\<lambda>t. tile t [K, 1, 1, 1]) (unsqueeze coef 0)
          else lift1 (\<lambda>t. tile t [K, 1, 1, 1]) (lift2 unsqueeze (unsqueeze coef 0) (Inr 2)))
         = Inr (Tensor [K, M, a, d_out]
                  (map (\<lambda>j. data coef ! (j mod (M * (a * d_out)))) [0..<K * (M * (a * d_out))]))"
proof (cases is_bias)
  case True
  have len: "length (data coef) = M * (1 * d_out)"
    using assms(1,2) True by (simp add: wf_tensor_def)
  have "lift2 unsqueeze (unsqueeze coef 0) (Inr 2) = Inr (Tensor [1, M, 1, d_out] (data coef))"
    using assms(2) True by (simp add: unsqueeze_def lift2_def)
  then show ?thesis
    using True assms(3) tile_4d [OF len, of K] by (simp add: lift1_def)
next
  case False
  have len: "length (data coef) = M * (d_in * d_out)"
    using assms(1,2) False by (simp add: wf_tensor_def)
  have "unsqueeze coef 0 = Inr (Tensor [1, M, d_in, d_out] (data coef))"
    using assms(2) False by (simp add: unsqueeze_def)
  then show ?thesis
    using False assms(3) tile_4d [OF len, of K] by (simp add: lift1_def)
qed

lemma sample_gumbel_first_iteration:
  assumes "wf_tensor coef"
    and "shape coef = (if is_bias then [M, d_out] else [M, d_in, d_out])"
    and "a = (if is_bias then 1 else d_in)"
    and "i < length rho" and "tau \<noteq> 0"
  shows "sample_gumbel_loop (i # rest) rho logvar_enc coef tau M K d_in d_out is_bias sample rng
         = Inr (Single (Tensor [K, M, a, d_out]
                  (map (gumbel_softmax coef tau rng M (a * d_out)) [0..<K * (M * (a * d_out))])),
                advance rng (K * (M * (a * d_out))))"
proof -
  define N where "N = K * (M * (a * d_out))"
  define zt where "zt = [K, M, a, d_out]"
  have zt: "(if \<not> is_bias then [K, M, d_in, d_out] else [K, M, 1, d_out]) = zt"
    using assms(3) by (simp add: zt_def)
  have hd: "hd (shape coef) = M" and tl: "prod_list (tl (shape coef)) = a * d_out"
    using assms(2,3) by (simp_all split: if_splits)
  have p: "lift1 (decode_std logvar_enc) (py_index rho i) = Inr (decode_std logvar_enc (rho ! i))"
    using assms(4) by (simp add: py_index_def lift1_def)
  have ce: "(if \<not> is_bias then lift1 (\<lambda>t. tile t [K, 1, 1, 1]) (unsqueeze coef 0)
          else lift1 (\<lambda>t. tile t [K, 1, 1, 1]) (lift2 unsqueeze (unsqueeze coef 0) (Inr 2)))
         = Inr (Tensor zt (map (\<lambda>j. data coef ! (j mod (M * (a * d_out)))) [0..<N]))"
    unfolding zt_def N_def by (rule coef_expand_tiled [OF assms(1-3)])
  have rd: "rand zt rng = (Tensor zt (map (\<lambda>j. tape rng (pos rng + j)) [0..<N]), advance rng N)"
    by (simp add: rand_def draws_index zt_def N_def)
  have sm: "softmax (Tensor zt (map (\<lambda>j. data coef ! (j mod (M * (a * d_out)))) [0..<N])) 1
      = Inr (Tensor zt
          (map (\<lambda>j. mix_weight coef (j mod (M * (a * d_out)) div (a * d_out)) (j mod (a * d_out)))
             [0..<N]))"
    unfolding zt_def by (rule softmax_tiled [OF N_def hd tl])
  have lg: "t_map (\<lambda>x. 1 / tau * x)
        (t_add (t_map ln (Inr (Tensor zt
            (map (\<lambda>j. mix_weight coef (j mod (M * (a * d_out)) div (a * d_out)) (j mod (a * d_out)))
               [0..<N]))))
          (Inr (Tensor zt (map (\<lambda>j. gumbel_noise (tape rng (pos rng + j))) [0..<N]))))
      = Inr (Tensor zt (map (gumbel_logit coef tau rng M (a * d_out)) [0..<N]))"
    unfolding gumbel_logit_def [abs_def] by (simp only: t_map_index t_add_index)
  have sg: "softmax (Tensor zt (map (gumbel_logit coef tau rng M (a * d_out)) [0..<N])) 1
      = Inr (Tensor zt (map (gumbel_softmax coef tau rng M (a * d_out)) [0..<N]))"
    unfolding zt_def gumbel_softmax_def [abs_def] by (rule softmax_dim1_index [OF N_def])
  show ?thesis
    unfolding sample_gumbel_loop.simps p sum.case Let_def zt ce rd prod.case gumbel_sample_index
      sm lg sg
    using assms(5) by (simp add: zt_def N_def)
qed

section \<open>The claims\<close>

text \<open>
  C1 (as amended). For non-empty, equally long lists of tensors with matching shapes,
  \<open>kl_diag_gaussians\<close> returns the 0-dimensional tensor
  \<open>0.5 * (\<Sum>j. -1 + (exp (logvar_a j) + (mean_b j - mean_a j)\<^sup>2) / exp (logvar_b j)
  + logvar_b j - logvar_a j)\<close>, where \<open>j\<close> ranges over the elements of the flattened and
  concatenated tensors.
\<close>

theorem kl_diag_gaussians_analytic:
  assumes "mean_a \<noteq> []"
    and "matching mean_a logvar_a" and "matching mean_a mean_b" and "matching mean_a logvar_b"
  shows "kl_diag_gaussians mean_a logvar_a mean_b logvar_b =
           Inr (Tensor []
             [0.5 * (\<Sum>j<length (flat mean_a).
                 - 1 + (exp (flat logvar_a ! j) + (flat mean_b ! j - flat mean_a ! j)\<^sup>2)
                         / exp (flat logvar_b ! j)
                 + flat logvar_b ! j - flat logvar_a ! j)])"
proof -
  define n where "n = length (flat mean_a)"
  have ne: "logvar_a \<noteq> []" "mean_b \<noteq> []" "logvar_b \<noteq> []"
    using assms by (auto simp: matching_def)
  have len: "length (flat logvar_a) = n" "length (flat mean_b) = n" "length (flat logvar_b) = n"
    using assms(2-4) by (simp_all add: n_def matching_length_flat [symmetric])
  have cats:
    "cat_view mean_a = Inr (Tensor [n] (map (\<lambda>j. flat mean_a ! j) [0..<n]))"
    "cat_view logvar_a = Inr (Tensor [n] (map (\<lambda>j. flat logvar_a ! j) [0..<n]))"
    "cat_view mean_b = Inr (Tensor [n] (map (\<lambda>j. flat mean_b ! j) [0..<n]))"
    "cat_view logvar_b = Inr (Tensor [n] (map (\<lambda>j. flat logvar_b ! j) [0..<n]))"
    using assms(1) ne len by (simp_all add: cat_view_index n_def)
  show ?thesis
    unfolding kl_diag_gaussians_def Let_def cats n_def [symmetric] by simp
qed

theorem kl_diag_gaussians_analytic_witness:
  "kl_diag_gaussians [Tensor [2] [1, 2]] [Tensor [2] [0, 0]] [Tensor [2] [1, 2]] [Tensor [2] [0, 0]]
     = Inr (Tensor [] [0])"
proof -
  have m: "matching [Tensor [2] [1, 2]] [Tensor [2] [0, 0]]"
          "matching [Tensor [2] [1, 2]] [Tensor [2] [1, 2]]"
    by (simp_all add: matching_def wf_tensor_def)
  have ne: "[Tensor [2] [1, 2]] \<noteq> []" by simp
  show ?thesis
    using kl_diag_gaussians_analytic [OF ne m(1) m(2) m(1)]
    by (simp add: flat_def lessThan_Suc numeral_2_eq_2)
qed

theorem kl_diag_gaussians_empty_counterexample:
  "kl_diag_gaussians [] [] [] [] = Inl RuntimeError
   \<and> kl_diag_gaussians [] [] [] [] \<noteq> Inr (Tensor [] [0])"
  by (simp add: kl_diag_gaussians_def cat_view_def t_map_def t_sum_def t_sub_def t_add_def
      t_div_def lift1_def lift2_def)

text \<open>
  C2 (as amended). For non-empty, equally long lists of tensors with matching shapes,
  \<open>square_wasserstein_2\<close> returns the squared Euclidean distance of the flattened means
  plus \<open>\<Sum>j. var_a j + var_b j - 2 * sqrt (var_a j * var_b j)\<close>, where \<open>var = exp logvar\<close>
  on the flattened and concatenated tensors.
\<close>

theorem square_wasserstein_2_analytic:
  assumes "mean_a \<noteq> []"
    and "matching mean_a logvar_a" and "matching mean_a mean_b" and "matching mean_a logvar_b"
  shows "square_wasserstein_2 mean_a logvar_a mean_b logvar_b =
           Inr (Tensor []
             [(\<Sum>j<length (flat mean_a). (flat mean_a ! j - flat mean_b ! j)\<^sup>2)
              + (\<Sum>j<length (flat mean_a).
                   exp (flat logvar_a ! j) + exp (flat logvar_b ! j)
                   - 2 * sqrt (exp (flat logvar_a ! j) * exp (flat logvar_b ! j)))])"
proof -
  define n where "n = length (flat mean_a)"
  have ne: "logvar_a \<noteq> []" "mean_b \<noteq> []" "logvar_b \<noteq> []"
    using assms by (auto simp: matching_def)
  have len: "length (flat logvar_a) = n" "length (flat mean_b) = n" "length (flat logvar_b) = n"
    using assms(2-4) by (simp_all add: n_def matching_length_flat [symmetric])
  have cats:
    "cat_view mean_a = Inr (Tensor [n] (map (\<lambda>j. flat mean_a ! j) [0..<n]))"
    "cat_view logvar_a = Inr (Tensor [n] (map (\<lambda>j. flat logvar_a ! j) [0..<n]))"
    "cat_view mean_b = Inr (Tensor [n] (map (\<lambda>j. flat mean_b ! j) [0..<n]))"
    "cat_view logvar_b = Inr (Tensor [n] (map (\<lambda>j. flat logvar_b ! j) [0..<n]))"
    using assms(1) ne len by (simp_all add: cat_view_index n_def)
  have nonneg: "0 \<le> (\<Sum>j<n. (flat mean_a ! j - flat mean_b ! j)\<^sup>2)"
    by (rule sum_nonneg) simp
  show ?thesis
    unfolding square_wasserstein_2_def Let_def cats n_def [symmetric]
    using nonneg by simp
qed

theorem square_wasserstein_2_analytic_witness:
  "square_wasserstein_2 [Tensor [1] [3]] [Tensor [1] [0]] [Tensor [1] [1]] [Tensor [1] [0]]
     = Inr (Tensor [] [4])"
proof -
  have m: "matching [Tensor [1] [3]] [Tensor [1] [0]]"
          "matching [Tensor [1] [3]] [Tensor [1] [1]]"
    by (simp_all add: matching_def wf_tensor_def)
  have ne: "[Tensor [1] [3]] \<noteq> []" by simp
  show ?thesis
    using square_wasserstein_2_analytic [OF ne m(1) m(2) m(1)]
    by (simp add: flat_def)
qed

theorem square_wasserstein_2_empty_counterexample:
  "square_wasserstein_2 [] [] [] [] = Inl RuntimeError
   \<and> square_wasserstein_2 [] [] [] [] \<noteq> Inr (Tensor [] [0])"
  by (simp add: square_wasserstein_2_def cat_view_def t_map_def t_sum_def t_sub_def t_add_def
      t_mul_def t_norm2_def lift1_def lift2_def)

text \<open>
  C3. For four well-formed tensors of one shape, \<open>kl_gauss\<close> and \<open>compute_kl\<close> with
  \<open>sum = False\<close>, \<open>lamb = 1\<close> and \<open>initial_prior_var = 0\<close> return the same tensor, whose
  element \<open>j\<close> is \<open>0.5 * (exp (logvar_a j - logvar_b j)
  + (mean_a j - mean_b j)\<^sup>2 * exp (- logvar_b j) + logvar_b j - logvar_a j - 1)\<close>.
\<close>

theorem kl_gauss_eq_compute_kl:
  assumes "wf_tensor mean_a" and "wf_tensor logvar_a" and "wf_tensor mean_b"
    and "wf_tensor logvar_b"
    and "shape logvar_a = shape mean_a" and "shape mean_b = shape mean_a"
    and "shape logvar_b = shape mean_a"
  shows "kl_gauss mean_a logvar_a mean_b logvar_b
           = compute_kl mean_a logvar_a mean_b logvar_b False 1 0.0
         \<and> kl_gauss mean_a logvar_a mean_b logvar_b
           = Inr (Tensor (shape mean_a)
               (map (\<lambda>j. 0.5 * (exp (data logvar_a ! j - data logvar_b ! j)
                             + (data mean_a ! j - data mean_b ! j)\<^sup>2 * exp (- data logvar_b ! j)
                             + data logvar_b ! j - data logvar_a ! j - 1))
                  [0..<numel mean_a]))"
proof -
  define s where "s = shape mean_a"
  define n where "n = prod_list s"
  define ma where "ma = (\<lambda>j. data mean_a ! j)"
  define la where "la = (\<lambda>j. data logvar_a ! j)"
  define mb where "mb = (\<lambda>j. data mean_b ! j)"
  define lb where "lb = (\<lambda>j. data logvar_b ! j)"
  have idx:
    "mean_a = Tensor s (map ma [0..<n])" "logvar_a = Tensor s (map la [0..<n])"
    "mean_b = Tensor s (map mb [0..<n])" "logvar_b = Tensor s (map lb [0..<n])"
    unfolding n_def ma_def la_def mb_def lb_def
    using assms by (auto simp: s_def intro: tensor_index)
  have nm: "numel mean_a = n"
    using assms(1) by (simp add: numel_def wf_tensor_def n_def s_def)
  have pt: "0.5 * (y - x) + 0.5 * (exp x + (u - v)\<^sup>2) / exp y - 0.5
              = 0.5 * (exp (x - y) + (u - v)\<^sup>2 * exp (- y) + y - x - 1)"
    for x y u v :: real
    by (simp add: exp_diff exp_minus field_simps)
  have kg: "kl_gauss mean_a logvar_a mean_b logvar_b
      = Inr (Tensor s (map (\<lambda>j. 0.5 * (lb j - la j)
            + 0.5 * (exp (la j) + (ma j - mb j)\<^sup>2) / exp (lb j) - 0.5) [0..<n]))"
    unfolding idx kl_gauss_def by simp
  have ck: "compute_kl mean_a logvar_a mean_b logvar_b False 1 0.0
      = Inr (Tensor s (map (\<lambda>j. 0.5 * (exp (la j - lb j)
            + (ma j - mb j)\<^sup>2 * exp (- lb j) + (lb j - la j) - 1)) [0..<n]))"
    unfolding idx compute_kl_def Let_def by simp
  have "kl_gauss mean_a logvar_a mean_b logvar_b
      = Inr (Tensor s (map (\<lambda>j. 0.5 * (exp (la j - lb j)
            + (ma j - mb j)\<^sup>2 * exp (- lb j) + lb j - la j - 1)) [0..<n]))"
    unfolding kg by (simp only: pt)
  moreover have "compute_kl mean_a logvar_a mean_b logvar_b False 1 0.0
      = Inr (Tensor s (map (\<lambda>j. 0.5 * (exp (la j - lb j)
            + (ma j - mb j)\<^sup>2 * exp (- lb j) + lb j - la j - 1)) [0..<n]))"
    unfolding ck by (simp add: algebra_simps)
  ultimately show ?thesis
    unfolding nm s_def [symmetric] ma_def la_def mb_def lb_def by simp
qed

theorem kl_gauss_eq_compute_kl_witness:
  "kl_gauss (Tensor [1] [2]) (Tensor [1] [0]) (Tensor [1] [1]) (Tensor [1] [0])
     = compute_kl (Tensor [1] [2]) (Tensor [1] [0]) (Tensor [1] [1]) (Tensor [1] [0]) False 1 0.0
   \<and> kl_gauss (Tensor [1] [2]) (Tensor [1] [0]) (Tensor [1] [1]) (Tensor [1] [0])
     = Inr (Tensor [1] [1 / 2])"
  using kl_gauss_eq_compute_kl [of "Tensor [1] [2]" "Tensor [1] [0]" "Tensor [1] [1]" "Tensor [1] [0]"]
  by (auto simp add: wf_tensor_def numel_def)

text \<open>
  C4. With \<^verbatim>\<open>is_radial=True\<close> and lists of matching shapes, \<open>sample_diag_gauss\<close> returns
  at every index \<open>i\<close> the tensor \<open>mean i + std i * (eps i / ||eps i||) * r i\<close>, and
  \<open>decode_and_sample_diag_gauss\<close> the same with the standard deviation that
  \<open>decode_diag_gauss\<close> decodes from \<open>rho\<close>. The direction \<open>eps i\<close> is made of the draws of
  \<^verbatim>\<open>torch.normal(0, 1)\<close> at the positions \<open>eps_start i, ..., eps_start i + numel (mean i) - 1\<close>
  of the generator's tape, one per element of \<open>mean i\<close>, its norm is taken over this one
  tensor, and the radius \<open>r i\<close> is the draw at the next position, which lies before the draws
  of every later tensor: each parameter tensor gets a direction and a radius of its own.
\<close>

theorem radial_sampling:
  assumes "matching mean std" and "matching mean rho"
  shows "sample_diag_gauss mean std g True
           = Inr (map (\<lambda>i. radial_point (mean ! i) (std ! i) (eps_of mean g i) (radius_of mean g i))
                    [0..<length mean],
                  advance g (\<Sum>m\<leftarrow>mean. numel m + 1))
       \<and> decode_and_sample_diag_gauss mean rho logvar_enc g True
           = Inr (map (\<lambda>i. radial_point (mean ! i)
                             (fst (decode_diag_gauss rho logvar_enc False False) ! i)
                             (eps_of mean g i) (radius_of mean g i))
                    [0..<length mean],
                  advance g (\<Sum>m\<leftarrow>mean. numel m + 1))
       \<and> (\<forall>i j. i < j \<and> j < length mean \<longrightarrow>
            eps_start mean g i + numel (mean ! i) < eps_start mean g j)"
proof (intro conjI allI impI)
  show "sample_diag_gauss mean std g True
           = Inr (map (\<lambda>i. radial_point (mean ! i) (std ! i) (eps_of mean g i) (radius_of mean g i))
                    [0..<length mean],
                  advance g (\<Sum>m\<leftarrow>mean. numel m + 1))"
    by (rule sample_diag_gauss_radial [OF assms(1)])
next
  have "decode_and_sample_loop [0..<length mean] mean rho logvar_enc True []
            (advance g (\<Sum>m\<leftarrow>take 0 mean. numel m + 1))
         = Inr ([] @ map (\<lambda>i. radial_point (mean ! i) (decode_std logvar_enc (rho ! i))
                                (eps_of mean g i) (radius_of mean g i))
                        [0..<length mean],
                advance g (\<Sum>m\<leftarrow>mean. numel m + 1))"
    using assms(2) by (intro decode_loop_radial) (simp_all add: matching_nth matching_length)
  moreover have "fst (decode_diag_gauss rho logvar_enc False False) ! i
                   = decode_std logvar_enc (rho ! i)" if "i < length mean" for i
    using that matching_length [OF assms(2)] by (simp add: decode_diag_gauss_def)
  ultimately show "decode_and_sample_diag_gauss mean rho logvar_enc g True
           = Inr (map (\<lambda>i. radial_point (mean ! i)
                             (fst (decode_diag_gauss rho logvar_enc False False) ! i)
                             (eps_of mean g i) (radius_of mean g i))
                    [0..<length mean],
                  advance g (\<Sum>m\<leftarrow>mean. numel m + 1))"
    using matching_length [OF assms(2)]
    by (simp add: decode_and_sample_diag_gauss_def advance_def)
next
  fix i j
  assume ij: "i < j \<and> j < length mean"
  then have "take j mean = take (Suc i) mean @ drop (Suc i) (take j mean)"
    by (metis Suc_leI append_take_drop_id min.absorb2 take_take min.commute)
  then have "(\<Sum>m\<leftarrow>take j mean. numel m + 1)
               = (\<Sum>m\<leftarrow>take (Suc i) mean. numel m + 1)
                 + (\<Sum>m\<leftarrow>drop (Suc i) (take j mean). numel m + 1)"
    by (metis map_append sum_list_append)
  moreover have "(\<Sum>m\<leftarrow>take (Suc i) mean. numel m + 1)
                   = (\<Sum>m\<leftarrow>take i mean. numel m + 1) + (numel (mean ! i) + 1)"
    using ij by (intro take_Suc_sum) simp
  ultimately show "eps_start mean g i + numel (mean ! i) < eps_start mean g j"
    by (simp add: eps_start_def)
qed

theorem radial_sampling_witness:
  "sample_diag_gauss [Tensor [2] [1, 1]] [Tensor [2] [5, 10]]
       \<lparr>tape = (\<lambda>n. if n = 0 then 3 else if n = 1 then 4 else 2), pos = 0\<rparr> True
     = Inr ([Tensor [2] [7, 17]],
            \<lparr>tape = (\<lambda>n. if n = 0 then 3 else if n = 1 then 4 else 2), pos = 3\<rparr>)
   \<and> decode_and_sample_diag_gauss [Tensor [2] [1, 1]] [Tensor [2] [0, 0]] True
       \<lparr>tape = (\<lambda>n. if n = 0 then 3 else if n = 1 then 4 else 2), pos = 0\<rparr> True
     = Inr ([Tensor [2] [11 / 5, 13 / 5]],
            \<lparr>tape = (\<lambda>n. if n = 0 then 3 else if n = 1 then 4 else 2), pos = 3\<rparr>)"
proof -
  have m: "matching [Tensor [2] [1, 1]] [Tensor [2] [5, 10]]"
          "matching [Tensor [2] [1, 1]] [Tensor [2] [0, 0]]"
    by (simp_all add: matching_def wf_tensor_def)
  have s: "sqrt 25 = 5"
    using real_sqrt_abs [of 5] by simp
  have u: "[0..<2] = [0, Suc 0]"
    by (simp add: upt_rec)
  show ?thesis
    using radial_sampling [OF m, of "\<lparr>tape = (\<lambda>n. if n = 0 then 3 else if n = 1 then 4 else 2), pos = 0\<rparr>" True]
    by (simp add: radial_point_def eps_of_def radius_of_def eps_start_def numel_def l2norm_def
        decode_diag_gauss_def decode_std_def tensor_map_def advance_def s u)
qed

text \<open>
  C5 (as amended). For a radial posterior \<open>(mean_a, std_a)\<close> and a diagonal Gaussian
  \<open>(mean_b, std_b)\<close> given as non-empty lists of tensors with matching shapes, \<open>std_b\<close> positive,
  and \<open>N \<ge> 1\<close> samples, \<open>kl_radial_bnn_with_diag_gauss\<close> returns
  \<open>(- \<Sum>j. ln (std_a j)) - 1 / N * (\<Sum>n<N. \<Sum>i. \<Sum>e. ln (density (sample n i e)))\<close>, the density
  being that of the normal distribution with mean \<open>mean_b i e\<close> and standard deviation
  \<open>std_b i e\<close>, and \<open>sample n\<close> the list that the call number \<open>n\<close> of \<open>sample_diag_gauss\<close>
  with \<^verbatim>\<open>is_radial=True\<close> returns; the generator has then produced \<open>N\<close> samples.
\<close>

theorem kl_radial_bnn_monte_carlo:
  assumes "mean_a \<noteq> []"
    and "matching mean_a std_a" and "matching mean_a mean_b" and "matching mean_a std_b"
    and "positive std_b" and "1 \<le> ce_sample_size"
  shows "kl_radial_bnn_with_diag_gauss mean_a std_a mean_b std_b ce_sample_size g
         = Inr (Tensor []
                  [- (\<Sum>j<length (flat std_a). ln (flat std_a ! j))
                   - 1 / real_of_int ce_sample_size
                     * (\<Sum>n<nat ce_sample_size. \<Sum>i<length mean_b.
                          log_density (mean_b ! i) (std_b ! i)
                            (drawn_sample mean_a std_a g n ! i))],
                advance g (nat ce_sample_size * draws_per_sample mean_a))"
proof -
  obtain d where d: "nat ce_sample_size = Suc d"
    using assms(6) by (cases "nat ce_sample_size") auto
  have ne: "std_a \<noteq> []"
    using assms(1,2) by (auto simp: matching_def)
  have ent: "t_map uminus (t_sum (t_map ln (cat_view std_a)))
      = Inr (Tensor [] [- (\<Sum>j<length (flat std_a). ln (flat std_a ! j))])"
    by (simp add: cat_view_index [OF ne refl])
  have "cross_entropy_outer (Suc d) mean_a std_a mean_b std_b (PyNum 0)
            (advance g (0 * draws_per_sample mean_a))
         = Inr (PyTensor (Tensor []
               [0 + (\<Sum>k = 0..<0 + Suc d. \<Sum>i<length mean_b.
                       log_density (mean_b ! i) (std_b ! i) (drawn_sample mean_a std_a g k ! i))]),
                advance g ((0 + Suc d) * draws_per_sample mean_a))"
    using assms(1-5) by (intro outer_loop) simp_all
  then have out: "cross_entropy_outer (nat ce_sample_size) mean_a std_a mean_b std_b (PyNum 0) g
         = Inr (PyTensor (Tensor []
               [\<Sum>k<nat ce_sample_size. \<Sum>i<length mean_b.
                       log_density (mean_b ! i) (std_b ! i) (drawn_sample mean_a std_a g k ! i)]),
                advance g (nat ce_sample_size * draws_per_sample mean_a))"
    unfolding d by (simp add: advance_def atLeast0LessThan)
  show ?thesis
    unfolding kl_radial_bnn_with_diag_gauss_def ent out
    by (simp add: py_idiv_def tensor_sub_py_def tensor_map_def tensor_binop_def)
qed

theorem kl_radial_bnn_monte_carlo_witness:
  "kl_radial_bnn_with_diag_gauss [Tensor [1] [0]] [Tensor [1] [1]] [Tensor [1] [0]] [Tensor [1] [1]]
       1 \<lparr>tape = (\<lambda>n. 1), pos = 0\<rparr>
     = Inr (Tensor [] [1 / 2 + ln (sqrt (2 * pi))], \<lparr>tape = (\<lambda>n. 1), pos = 2\<rparr>)"
proof -
  have m: "matching [Tensor [1] [0]] [Tensor [1] [1]]" "matching [Tensor [1] [0]] [Tensor [1] [0]]"
    by (simp_all add: matching_def wf_tensor_def)
  have p: "positive [Tensor [1] [1]]"
    by (simp add: positive_def)
  have ne: "[Tensor [1] [0]] \<noteq> []" by simp
  have n: "(1::int) \<le> 1" by simp
  have "sample_diag_gauss [Tensor [1] [0]] [Tensor [1] [1]] \<lparr>tape = (\<lambda>n. 1), pos = 0\<rparr> True
          = Inr ([Tensor [1] [1]], \<lparr>tape = (\<lambda>n. 1), pos = 2\<rparr>)"
    using sample_diag_gauss_radial [OF m(1), of "\<lparr>tape = (\<lambda>n. 1), pos = 0\<rparr>"]
    by (simp add: radial_point_def eps_of_def radius_of_def eps_start_def numel_def l2norm_def
        advance_def)
  then have s: "drawn_sample [Tensor [1] [0]] [Tensor [1] [1]] \<lparr>tape = (\<lambda>n. 1), pos = 0\<rparr> 0
             = [Tensor [1] [1]]"
    by (simp add: drawn_sample_def advance_def)
  show ?thesis
    using kl_radial_bnn_monte_carlo [OF ne m(1) m(2) m(1) p n, of "\<lparr>tape = (\<lambda>n. 1), pos = 0\<rparr>"] s
    by (simp add: flat_def log_density_def numel_def ln_gauss_density advance_def
        draws_per_sample_def)
qed

theorem kl_radial_bnn_empty_counterexample:
  "kl_radial_bnn_with_diag_gauss [] [] [] [] 1 \<lparr>tape = (\<lambda>n. 0), pos = 0\<rparr> = Inl RuntimeError"
  by (simp add: kl_radial_bnn_with_diag_gauss_def cat_view_def t_map_def t_sum_def lift1_def)

text \<open>
  C6. When the module \<^verbatim>\<open>hpsearch_config_zenke_bbb_mixture\<close> has been initialised, its
  \<^verbatim>\<open>conditions\<close> are the user-defined list, which is empty, followed by
  \<^verbatim>\<open>hpsplit._BASE_CONDITIONS\<close> and then \<^verbatim>\<open>hpsplit._BBB_CONDITIONS\<close>, and its \<^verbatim>\<open>grid\<close> is the
  literal of the source; likewise for \<^verbatim>\<open>hpsearch_config_gmm_ssge\<close> with
  \<^verbatim>\<open>hpsplitbbb._BASE_CONDITIONS\<close> and \<^verbatim>\<open>hpsplitssge._SSGE_CONDITIONS\<close>. The initialisation of
  either module goes through exactly when the imported summary keywords contain
  \<^verbatim>\<open>'acc_avg_final'\<close>.
\<close>

theorem hpsearch_config_conditions_and_grid:
  "(hpsearch_config_zenke_bbb_mixture base bbb keywords = Inr m
      \<longrightarrow> conditions m = zenke_bbb_mixture_user_conditions @ base @ bbb
        \<and> zenke_bbb_mixture_user_conditions = []
        \<and> grid m = zenke_bbb_mixture_grid)
   \<and> (hpsearch_config_gmm_ssge base ssge filename keywords = Inr m'
      \<longrightarrow> conditions m' = gmm_ssge_user_conditions @ base @ ssge
        \<and> gmm_ssge_user_conditions = []
        \<and> grid m' = gmm_ssge_grid)
   \<and> ((\<exists>m. hpsearch_config_zenke_bbb_mixture base bbb keywords = Inr m)
        = (''acc_avg_final'' \<in> set keywords))
   \<and> ((\<exists>m. hpsearch_config_gmm_ssge base ssge filename keywords = Inr m)
        = (''acc_avg_final'' \<in> set keywords))"
  by (auto simp: hpsearch_config_zenke_bbb_mixture_def hpsearch_config_gmm_ssge_def Let_def
      check_performance_key_def unset_module_def zenke_bbb_mixture_user_conditions_def
      gmm_ssge_user_conditions_def split: if_splits)

theorem hpsearch_config_conditions_and_grid_witness:
  "hpsearch_config_zenke_bbb_mixture
       [([(''use_adam'', [PyBool False])], [(''beta'', [PyFloat 1])])]
       [([(''radial_bnn'', [PyBool True])], [(''cl_scenario'', [PyInt 3])])]
       [''acc_avg_final'', ''finished'']
     = Inr \<lparr>grid = zenke_bbb_mixture_grid,
            conditions = [([(''use_adam'', [PyBool False])], [(''beta'', [PyFloat 1])]),
                          ([(''radial_bnn'', [PyBool True])], [(''cl_scenario'', [PyInt 3])])],
            SCRIPT_NAME = ''train_zenke_bbb.py'',
            SUMMARY_FILENAME = ''performance_overview.txt'',
            SUMMARY_KEYWORDS = [''acc_avg_final'', ''finished''],
            OUT_ARG = ''out_dir'',
            PERFORMANCE_KEY = Some ''acc_avg_final'',
            PERFORMANCE_SORT_ASC = False\<rparr>
   \<and> hpsearch_config_gmm_ssge
       [([(''use_adam'', [PyBool False])], [(''beta'', [PyFloat 1])])]
       [([(''imp_hnet_type'', [PyStr ''hmlp''])], [(''beta'', [PyFloat 2])])]
       ''performance_overview.txt'' [''acc_avg_final'', ''finished'']
     = Inr \<lparr>grid = gmm_ssge_grid,
            conditions = [([(''use_adam'', [PyBool False])], [(''beta'', [PyFloat 1])]),
                          ([(''imp_hnet_type'', [PyStr ''hmlp''])], [(''beta'', [PyFloat 2])])],
            SCRIPT_NAME = ''train_gmm_ssge.py'',
            SUMMARY_FILENAME = ''performance_overview.txt'',
            SUMMARY_KEYWORDS = [''acc_avg_final'', ''finished''],
            OUT_ARG = ''out_dir'',
            PERFORMANCE_KEY = Some ''acc_avg_final'',
            PERFORMANCE_SORT_ASC = False\<rparr>
   \<and> hpsearch_config_zenke_bbb_mixture [] [] [''finished''] = Inl AssertionError"
proof -
  have z: "hpsearch_config_zenke_bbb_mixture
       [([(''use_adam'', [PyBool False])], [(''beta'', [PyFloat 1])])]
       [([(''radial_bnn'', [PyBool True])], [(''cl_scenario'', [PyInt 3])])]
       [''acc_avg_final'', ''finished'']
     = Inr \<lparr>grid = zenke_bbb_mixture_grid,
            conditions = [([(''use_adam'', [PyBool False])], [(''beta'', [PyFloat 1])]),
                          ([(''radial_bnn'', [PyBool True])], [(''cl_scenario'', [PyInt 3])])],
            SCRIPT_NAME = ''train_zenke_bbb.py'',
            SUMMARY_FILENAME = ''performance_overview.txt'',
            SUMMARY_KEYWORDS = [''acc_avg_final'', ''finished''],
            OUT_ARG = ''out_dir'',
            PERFORMANCE_KEY = Some ''acc_avg_final'',
            PERFORMANCE_SORT_ASC = False\<rparr>"
    by (simp add: hpsearch_config_zenke_bbb_mixture_def Let_def check_performance_key_def
        unset_module_def zenke_bbb_mixture_user_conditions_def)
  have g: "hpsearch_config_gmm_ssge
       [([(''use_adam'', [PyBool False])], [(''beta'', [PyFloat 1])])]
       [([(''imp_hnet_type'', [PyStr ''hmlp''])], [(''beta'', [PyFloat 2])])]
       ''performance_overview.txt'' [''acc_avg_final'', ''finished'']
     = Inr \<lparr>grid = gmm_ssge_grid,
            conditions = [([(''use_adam'', [PyBool False])], [(''beta'', [PyFloat 1])]),
                          ([(''imp_hnet_type'', [PyStr ''hmlp''])], [(''beta'', [PyFloat 2])])],
            SCRIPT_NAME = ''train_gmm_ssge.py'',
            SUMMARY_FILENAME = ''performance_overview.txt'',
            SUMMARY_KEYWORDS = [''acc_avg_final'', ''finished''],
            OUT_ARG = ''out_dir'',
            PERFORMANCE_KEY = Some ''acc_avg_final'',
            PERFORMANCE_SORT_ASC = False\<rparr>"
    by (simp add: hpsearch_config_gmm_ssge_def Let_def check_performance_key_def
        unset_module_def gmm_ssge_user_conditions_def)
  have "\<nexists>m. hpsearch_config_zenke_bbb_mixture [] [] [''finished''] = Inr m"
    using hpsearch_config_conditions_and_grid [of "[]" "[]" "[''finished'']"] by simp
  then have a: "hpsearch_config_zenke_bbb_mixture [] [] [''finished''] = Inl AssertionError"
    by (simp add: hpsearch_config_zenke_bbb_mixture_def Let_def check_performance_key_def
        unset_module_def)
  from z g a show ?thesis by (simp only: simp_thms)
qed

text \<open>
  C7. For two Gaussian mixtures of \<open>n\<close> components each, given as lists of \<open>n\<close> means and \<open>n\<close>
  log-variances and a tensor of coefficient logits whose first dimension is \<open>n\<close>, with the
  four tensors of every component of one shape and the coefficients of a component either a
  single number or of the component's shape, \<open>upperbound_kl_mixture_gauss\<close> returns
  \<open>\<Sum>i<n. sum (ca_i * (log ca_i - log cb_i)) + sum (ca_i * kl_gauss (...))\<close>, where \<open>ca\<close> and
  \<open>cb\<close> are the softmax over dimension 0 of the coefficient logits (the Python number 0 when
  there is no component). The result is the same whatever function computes \<^verbatim>\<open>coef\<close> in the
  place of \<open>compute_coef\<close>.
\<close>

theorem upperbound_kl_mixture_gauss_formula:
  assumes "length list_mean_a = n" and "length list_logvar_a = n"
    and "length list_mean_b = n" and "length list_logvar_b = n"
    and "wf_tensor coef_a" and "wf_tensor coef_b"
    and "shape coef_a = n # cs" and "shape coef_b = n # cs"
    and "\<forall>i<n. wf_tensor (list_mean_a ! i) \<and> wf_tensor (list_logvar_a ! i)
           \<and> wf_tensor (list_mean_b ! i) \<and> wf_tensor (list_logvar_b ! i)
           \<and> shape (list_logvar_a ! i) = shape (list_mean_a ! i)
           \<and> shape (list_mean_b ! i) = shape (list_mean_a ! i)
           \<and> shape (list_logvar_b ! i) = shape (list_mean_a ! i)
           \<and> (cs = [] \<or> cs = shape (list_mean_a ! i))"
  shows "upperbound_kl_mixture_gauss_body compute_coef_fn
             (list_mean_a, list_logvar_a, coef_a) (list_mean_b, list_logvar_b, coef_b)
           = Inr (if n = 0 then PyNum 0
                  else PyTensor (Tensor []
                    [\<Sum>i<n. mixture_bound_term coef_a coef_b (list_mean_a ! i) (list_logvar_a ! i)
                               (list_mean_b ! i) (list_logvar_b ! i) i]))
       \<and> upperbound_kl_mixture_gauss
             (list_mean_a, list_logvar_a, coef_a) (list_mean_b, list_logvar_b, coef_b)
           = Inr (if n = 0 then PyNum 0
                  else PyTensor (Tensor []
                    [\<Sum>i<n. mixture_bound_term coef_a coef_b (list_mean_a ! i) (list_logvar_a ! i)
                               (list_mean_b ! i) (list_logvar_b ! i) i]))"
proof -
  obtain sa where sa: "softmax coef_a 0 = Inr sa"
    "\<And>i. i < n \<Longrightarrow>
       select0 sa i = Inr (Tensor cs (map (\<lambda>q. mix_weight coef_a i q) [0..<prod_list cs]))"
    using softmax0_select [OF assms(5,7)] by blast
  obtain sb where sb: "softmax coef_b 0 = Inr sb"
    "\<And>i. i < n \<Longrightarrow>
       select0 sb i = Inr (Tensor cs (map (\<lambda>q. mix_weight coef_b i q) [0..<prod_list cs]))"
    using softmax0_select [OF assms(6,8)] by blast
  have body: "upperbound_kl_mixture_gauss_body f
             (list_mean_a, list_logvar_a, coef_a) (list_mean_b, list_logvar_b, coef_b)
           = Inr (if n = 0 then PyNum 0
                  else PyTensor (Tensor []
                    [\<Sum>i<n. mixture_bound_term coef_a coef_b (list_mean_a ! i) (list_logvar_a ! i)
                               (list_mean_b ! i) (list_logvar_b ! i) i]))" for f
  proof (cases "n = 0")
    case True
    then show ?thesis
      using assms(1) by (simp add: upperbound_kl_mixture_gauss_body_def sa(1) sb(1))
  next
    case False
    then have n: "0 < n" by simp
    have "upperbound_loop [0..<n] (f n) list_mean_a list_logvar_a list_mean_b list_logvar_b
            sa sb (PyNum 0)
         = Inr (PyTensor (Tensor []
             [0 + (\<Sum>i = 0..<n.
                 mixture_bound_term coef_a coef_b (list_mean_a ! i) (list_logvar_a ! i)
                   (list_mean_b ! i) (list_logvar_b ! i) i)]))"
      using sa(2) sb(2) assms(1-4,7,9) n by (intro upperbound_loop_sum) auto
    then show ?thesis
      using assms(1) False
      by (simp add: upperbound_kl_mixture_gauss_body_def sa(1) sb(1) atLeast0LessThan)
  qed
  then show ?thesis
    by (simp add: upperbound_kl_mixture_gauss_def)
qed

theorem upperbound_kl_mixture_gauss_formula_witness:
  "upperbound_kl_mixture_gauss
      ([Tensor [1] [1], Tensor [1] [0]], [Tensor [1] [0], Tensor [1] [0]], Tensor [2] [0, 0])
      ([Tensor [1] [0], Tensor [1] [0]], [Tensor [1] [0], Tensor [1] [0]], Tensor [2] [0, 0])
     = Inr (PyTensor (Tensor [] [1 / 4]))"
proof -
  have h: "\<forall>i<2. wf_tensor ([Tensor [1] [1], Tensor [1] [0]] ! i)
           \<and> wf_tensor ([Tensor [1] [0], Tensor [1] [0]] ! i)
           \<and> wf_tensor ([Tensor [1] [0], Tensor [1] [0]] ! i)
           \<and> wf_tensor ([Tensor [1] [0], Tensor [1] [0]] ! i)
           \<and> shape ([Tensor [1] [0], Tensor [1] [0]] ! i) = shape ([Tensor [1] [1], Tensor [1] [0]] ! i)
           \<and> shape ([Tensor [1] [0], Tensor [1] [0]] ! i) = shape ([Tensor [1] [1], Tensor [1] [0]] ! i)
           \<and> shape ([Tensor [1] [0], Tensor [1] [0]] ! i) = shape ([Tensor [1] [1], Tensor [1] [0]] ! i)
           \<and> ([] = [] \<or> [] = shape ([Tensor [1] [1], Tensor [1] [0]] ! i))"
    by (simp add: wf_tensor_def numeral_2_eq_2 less_Suc_eq)
  have w: "wf_tensor (Tensor [2] [0, 0])"
    by (simp add: wf_tensor_def)
  show ?thesis
    using upperbound_kl_mixture_gauss_formula
      [of "[Tensor [1] [1], Tensor [1] [0]]" 2 "[Tensor [1] [0], Tensor [1] [0]]"
          "[Tensor [1] [0], Tensor [1] [0]]" "[Tensor [1] [0], Tensor [1] [0]]"
          "Tensor [2] [0, 0]" "Tensor [2] [0, 0]" "[]" compute_coef, OF _ _ _ _ w w _ _ h]
    by (simp add: mixture_bound_term_def mix_weight_def gauss_kl_def numel_def lessThan_Suc
        numeral_2_eq_2)
qed

text \<open>
  C9 (as amended). For a non-empty list \<open>mean\<close> with \<open>len(mean) = len(rho) = len(coef)\<close>, a
  temperature \<open>tau\<close> that is not 0, a coefficient tensor of shape
  \<open>[gauss_mixture, d_in, d_out]\<close> (\<open>[gauss_mixture, d_out]\<close> when \<^verbatim>\<open>is_bias\<close>) and a first tensor
  \<open>mean[0]\<close> that has a first element, \<open>sample_gumbel\<close> returns in the first iteration of its
  loop: the result is one tensor of shape \<open>[K, gauss_mixture, d_in, d_out]\<close> (\<open>d_in\<close> replaced by
  1 when \<^verbatim>\<open>is_bias\<close>), the softmax over dimension 1, at temperature \<open>tau\<close>, of the log of the
  softmax of the tiled coefficient logits plus Gumbel noise. It is computed from \<open>coef\<close> and
  the uniform draws alone, not from \<open>mean\<close> or \<open>rho\<close>, whose tensors at the indices from 1 are
  never read. For an empty list \<open>mean\<close> the function returns the empty list.
\<close>

theorem sample_gumbel_returns_in_first_iteration:
  "(mean \<noteq> [] \<and> length mean = length rho \<and> length mean = gauss_mixture
      \<and> wf_tensor coef
      \<and> shape coef = (if is_bias then [gauss_mixture, d_out] else [gauss_mixture, d_in, d_out])
      \<and> shape (mean ! 0) \<noteq> [] \<and> 0 < hd (shape (mean ! 0)) \<and> tau \<noteq> 0
    \<longrightarrow> sample_gumbel mean rho logvar_enc coef tau gauss_mixture K d_in d_out is_bias generator
          is_radial rng
        = Inr (Single (Tensor [K, gauss_mixture, if is_bias then 1 else d_in, d_out]
                 (map (gumbel_softmax coef tau rng gauss_mixture
                         ((if is_bias then 1 else d_in) * d_out))
                    [0..<K * (gauss_mixture * ((if is_bias then 1 else d_in) * d_out))])),
               advance rng (K * (gauss_mixture * ((if is_bias then 1 else d_in) * d_out)))))
   \<and> (shape coef \<noteq> [] \<and> hd (shape coef) = 0
    \<longrightarrow> sample_gumbel [] [] logvar_enc coef tau gauss_mixture K d_in d_out is_bias generator
          is_radial rng
        = Inr (Samples [], rng))"
proof (intro conjI impI)
  assume h: "mean \<noteq> [] \<and> length mean = length rho \<and> length mean = gauss_mixture
      \<and> wf_tensor coef
      \<and> shape coef = (if is_bias then [gauss_mixture, d_out] else [gauss_mixture, d_in, d_out])
      \<and> shape (mean ! 0) \<noteq> [] \<and> 0 < hd (shape (mean ! 0)) \<and> tau \<noteq> 0"
  define a where "a = (if is_bias then 1 else d_in)"
  have len: "tensor_len coef = Inr gauss_mixture"
    using h by (simp add: tensor_len_def split: if_splits)
  have n: "0 < length mean" "0 < length rho"
    using h by auto
  have dev: "lift1 (\<lambda>t. ()) (lift2 select0 (py_index mean 0) (Inr 0)) = Inr ()"
    using h n by (cases "shape (mean ! 0)") (simp_all add: py_index_def lift2_def lift1_def select0_def)
  have up: "[0..<length mean] = 0 # [Suc 0..<length mean]"
    using n by (simp add: upt_conv_Cons)
  have it: "sample_gumbel_loop (0 # [Suc 0..<length mean]) rho logvar_enc coef tau gauss_mixture K
              d_in d_out is_bias [] rng
         = Inr (Single (Tensor [K, gauss_mixture, a, d_out]
                  (map (gumbel_softmax coef tau rng gauss_mixture (a * d_out))
                     [0..<K * (gauss_mixture * (a * d_out))])),
                advance rng (K * (gauss_mixture * (a * d_out))))"
    using h n by (intro sample_gumbel_first_iteration) (simp_all add: a_def)
  show "sample_gumbel mean rho logvar_enc coef tau gauss_mixture K d_in d_out is_bias generator
          is_radial rng
        = Inr (Single (Tensor [K, gauss_mixture, if is_bias then 1 else d_in, d_out]
                 (map (gumbel_softmax coef tau rng gauss_mixture
                         ((if is_bias then 1 else d_in) * d_out))
                    [0..<K * (gauss_mixture * ((if is_bias then 1 else d_in) * d_out))])),
               advance rng (K * (gauss_mixture * ((if is_bias then 1 else d_in) * d_out))))"
    unfolding sample_gumbel_def len sum.case up it dev a_def [symmetric]
    using h n by simp
next
  assume "shape coef \<noteq> [] \<and> hd (shape coef) = 0"
  then have "tensor_len coef = Inr 0"
    by (cases "shape coef") (simp_all add: tensor_len_def)
  then show "sample_gumbel [] [] logvar_enc coef tau gauss_mixture K d_in d_out is_bias generator
          is_radial rng
        = Inr (Samples [], rng)"
    by (simp add: sample_gumbel_def)
qed

theorem sample_gumbel_returns_in_first_iteration_witness:
  "sample_gumbel [Tensor [1] [0], Tensor [1] [7]] [Tensor [1] [0], Tensor [1] [7]] True
       (Tensor [2, 1, 1] [0, 0]) 1 2 1 1 1 False
       \<lparr>tape = (\<lambda>n. 0), pos = 0\<rparr> False \<lparr>tape = (\<lambda>n. 1 / 2), pos = 0\<rparr>
     = Inr (Single (Tensor [1, 2, 1, 1] [1 / 2, 1 / 2]), \<lparr>tape = (\<lambda>n. 1 / 2), pos = 2\<rparr>)
   \<and> sample_gumbel [] [] True (Tensor [0] []) 1 0 1 1 1 False
       \<lparr>tape = (\<lambda>n. 0), pos = 0\<rparr> False \<lparr>tape = (\<lambda>n. 1 / 2), pos = 0\<rparr>
     = Inr (Samples [], \<lparr>tape = (\<lambda>n. 1 / 2), pos = 0\<rparr>)"
proof -
  have u: "[0..<2] = [0, Suc 0]" by (simp add: upt_rec)
  have e: "exp x / (exp x + exp x) = 1 / 2" for x :: real
    by (simp add: field_simps)
  show ?thesis
    using sample_gumbel_returns_in_first_iteration
        [of "[Tensor [1] [0], Tensor [1] [7]]" "[Tensor [1] [0], Tensor [1] [7]]" 2
            "Tensor [2, 1, 1] [0, 0]" False 1 1 1 True 1
            "\<lparr>tape = (\<lambda>n. 0), pos = 0\<rparr>" False "\<lparr>tape = (\<lambda>n. 1 / 2), pos = 0\<rparr>"]
      sample_gumbel_returns_in_first_iteration
        [of "[]" "[]" 0 "Tensor [0] []" False 1 1 1 True 1
            "\<lparr>tape = (\<lambda>n. 0), pos = 0\<rparr>" False "\<lparr>tape = (\<lambda>n. 1 / 2), pos = 0\<rparr>"]
    by (simp add: wf_tensor_def gumbel_softmax_def gumbel_logit_def mix_weight_def advance_def
        lessThan_Suc numeral_2_eq_2 u e)
qed

theorem sample_gumbel_zero_temperature_counterexample:
  "sample_gumbel [Tensor [1] [0]] [Tensor [1] [0]] True (Tensor [1, 1, 1] [0]) 0 1 1 1 1 False
       \<lparr>tape = (\<lambda>n. 0), pos = 0\<rparr> False \<lparr>tape = (\<lambda>n. 1 / 2), pos = 0\<rparr>
     = Inl ZeroDivisionError"
  by (simp add: sample_gumbel_def tensor_len_def py_index_def lift1_def lift2_def select0_def
      unsqueeze_def tile_def rand_def softmax_def Let_def)

text \<open>
  C10. For a list \<open>hnet_outputs\<close> of even length \<open>2 * n\<close>, \<open>extract_mean_std\<close> returns the
  second half of the list as \<open>mean\<close>, \<open>exp (0.5 * t)\<close> for every \<open>t\<close> of the first half as \<open>std\<close>,
  and the first half as \<open>logvar\<close> when \<^verbatim>\<open>return_logvar\<close> is set; for a list of odd length, and
  only then, it raises \<^verbatim>\<open>AssertionError\<close>. \<open>sample_diag_gaus_from_hnet\<close> raises
  \<^verbatim>\<open>AssertionError\<close> on a list of odd length and splits a list of even length the same way:
  where the two halves match in shape, its sample is the one \<open>sample_diag_gauss\<close> draws from
  the \<open>mean\<close> and \<open>std\<close> that \<open>extract_mean_std\<close> returns.
\<close>

theorem hnet_outputs_split:
  "extract_mean_std hnet_outputs return_logvar
     = (if even (length hnet_outputs) then
          Inr (drop (length hnet_outputs div 2) hnet_outputs,
               map (tensor_map (\<lambda>x. exp (0.5 * x))) (take (length hnet_outputs div 2) hnet_outputs),
               if return_logvar then Some (take (length hnet_outputs div 2) hnet_outputs) else None)
        else Inl AssertionError)
   \<and> (odd (length hnet_outputs) \<longrightarrow> sample_diag_gaus_from_hnet hnet_outputs g = Inl AssertionError)
   \<and> (even (length hnet_outputs)
        \<and> matching (drop (length hnet_outputs div 2) hnet_outputs)
                    (take (length hnet_outputs div 2) hnet_outputs)
      \<longrightarrow> sample_diag_gaus_from_hnet hnet_outputs g
          = sample_diag_gauss (drop (length hnet_outputs div 2) hnet_outputs)
              (map (tensor_map (\<lambda>x. exp (0.5 * x))) (take (length hnet_outputs div 2) hnet_outputs))
              g False)"
proof (intro conjI impI)
  define n where "n = length hnet_outputs div 2"
  have "map (\<lambda>i. tensor_map (\<lambda>x. exp (0.5 * x)) (take n hnet_outputs ! i)) [0..<n]
          = map (tensor_map (\<lambda>x. exp (0.5 * x))) (take n hnet_outputs)"
    if "even (length hnet_outputs)"
  proof -
    have "length (take n hnet_outputs) = n"
      using that by (auto simp: n_def)
    then show ?thesis
      by (simp add: list_eq_iff_nth_eq)
  qed
  then show "extract_mean_std hnet_outputs return_logvar
     = (if even (length hnet_outputs) then
          Inr (drop (length hnet_outputs div 2) hnet_outputs,
               map (tensor_map (\<lambda>x. exp (0.5 * x))) (take (length hnet_outputs div 2) hnet_outputs),
               if return_logvar then Some (take (length hnet_outputs div 2) hnet_outputs) else None)
        else Inl AssertionError)"
    unfolding n_def by (simp add: extract_mean_std_def Let_def even_iff_mod_2_eq_zero)
next
  assume "odd (length hnet_outputs)"
  then show "sample_diag_gaus_from_hnet hnet_outputs g = Inl AssertionError"
    by (simp add: sample_diag_gaus_from_hnet_def even_iff_mod_2_eq_zero)
next
  define n where "n = length hnet_outputs div 2"
  assume a: "even (length hnet_outputs)
        \<and> matching (drop (length hnet_outputs div 2) hnet_outputs)
                    (take (length hnet_outputs div 2) hnet_outputs)"
  then have len: "length (drop n hnet_outputs) = n" "length (take n hnet_outputs) = n"
    by (auto simp: n_def)
  have "sample_diag_gaus_from_hnet_loop [0..<n] (drop n hnet_outputs) (take n hnet_outputs) [] g
         = sample_diag_gauss_loop (enumerate 0 (drop 0 (drop n hnet_outputs)))
             (map (tensor_map (\<lambda>x. exp (0.5 * x))) (take n hnet_outputs)) False [] g"
    using len a matching_nth [of "drop n hnet_outputs" "take n hnet_outputs"]
    by (intro hnet_loop_eq) (simp_all add: n_def)
  then show "sample_diag_gaus_from_hnet hnet_outputs g
          = sample_diag_gauss (drop (length hnet_outputs div 2) hnet_outputs)
              (map (tensor_map (\<lambda>x. exp (0.5 * x))) (take (length hnet_outputs div 2) hnet_outputs))
              g False"
    using a by (simp add: sample_diag_gaus_from_hnet_def sample_diag_gauss_def Let_def n_def
        even_iff_mod_2_eq_zero)
qed

theorem hnet_outputs_split_witness:
  "extract_mean_std [Tensor [1] [0], Tensor [1] [3]] True
     = Inr ([Tensor [1] [3]], [Tensor [1] [1]], Some [Tensor [1] [0]])
   \<and> sample_diag_gaus_from_hnet [Tensor [1] [0], Tensor [1] [3]] \<lparr>tape = (\<lambda>n. 2), pos = 0\<rparr>
     = Inr ([Tensor [1] [5]], \<lparr>tape = (\<lambda>n. 2), pos = 1\<rparr>)
   \<and> extract_mean_std [Tensor [1] [0]] True = Inl AssertionError
   \<and> sample_diag_gaus_from_hnet [Tensor [1] [0]] \<lparr>tape = (\<lambda>n. 2), pos = 0\<rparr>
     = Inl AssertionError"
proof -
  have e: "even (length [Tensor [1] [0], Tensor [1] [3]])
           \<and> matching (drop (length [Tensor [1] [0], Tensor [1] [3]] div 2) [Tensor [1] [0], Tensor [1] [3]])
                       (take (length [Tensor [1] [0], Tensor [1] [3]] div 2) [Tensor [1] [0], Tensor [1] [3]])"
    by (simp add: matching_def wf_tensor_def)
  have o: "odd (length [Tensor [1] [0]])" by simp
  have s: "sample_diag_gauss [Tensor [1] [3]] [Tensor [1] [1]] \<lparr>tape = (\<lambda>n. 2), pos = 0\<rparr> False
             = Inr ([Tensor [1] [5]], \<lparr>tape = (\<lambda>n. 2), pos = 1\<rparr>)"
    by (simp add: sample_diag_gauss_def enumerate_eq_zip normal_def zeros_like_def numel_def
        draws_def advance_def py_index_def t_add_def t_mul_def lift2_def tensor_binop_def)
  show ?thesis
    using hnet_outputs_split [of "[Tensor [1] [0], Tensor [1] [3]]" True "\<lparr>tape = (\<lambda>n. 2), pos = 0\<rparr>"]
      hnet_outputs_split [of "[Tensor [1] [0]]" True "\<lparr>tape = (\<lambda>n. 2), pos = 0\<rparr>"] e o s
    by (simp add: tensor_map_def)
qed

end
